theory Spec2Isabelle
  imports Main "HOL-Library.Word" "HOL-Library.Log_Nat"
begin

section \<open>The video quality controller of mediastreamer2\<close>

text \<open>
  A shallow embedding of \<^verbatim>\<open>src/voip/msvideoqualitycontroller.c\<close>. The controller reacts to
  two events of the host pipeline: a bandwidth feedback (TMMBR) and a periodic timer tick. Both
  go through one routine, \<^verbatim>\<open>update_video_quality_from_bitrate\<close>, which reads and writes the
  encoder, the source and the stream.

  Conventions of the embedding:
  \<^item> a C \<^verbatim>\<open>int\<close> is a 32-bit word; \<^verbatim>\<open><\<close> and \<^verbatim>\<open>>\<close> on it are the signed comparisons
    \<open><s\<close>, and \<^verbatim>\<open>*\<close> wraps around (C leaves signed overflow undefined);
  \<^item> a \<^verbatim>\<open>time_t\<close> is a signed 64-bit number of seconds, as on the builds of the library;
    \<^verbatim>\<open>-\<close> on it wraps around and \<^verbatim>\<open>>=\<close> is the signed comparison. The clock value read by
    \<^verbatim>\<open>ms_time(NULL)\<close> is an argument of the two entry points;
  \<^item> a finite \<^verbatim>\<open>float\<close> is the rational number it denotes (no configuration table holds a
    NaN or an infinity);
  \<^item> the filters behind the stream (encoder, source, camera, factory) are an opaque value
    of a type \<open>'w\<close>, and what they do is a record of functions, so that every theorem holds
    for every encoder, source and ranking routine;
  \<^item> every call that leaves the file is appended to a call log, oldest first. The log is
    ghost state: the C code has no such field.
\<close>

subsection \<open>Data\<close>

type_synonym cint = "32 word"
type_synonym cfloat = rat
type_synonym time_t = "64 word"

text \<open>
  Modelled from the spec: \<^verbatim>\<open>MSVideoSize\<close> and \<^verbatim>\<open>MSVideoConfiguration\<close> are declared in
  \<^verbatim>\<open>mediastreamer2/msvideo.h\<close>, which is not among the sources. The fields are the ones the
  spec lists for a VideoConfiguration (resolution, fps, requiredBitrate, bitrateLimit), under
  the names the C file reads them by.
\<close>

record MSVideoSize =
  width :: cint
  height :: cint

record MSVideoConfiguration =
  required_bitrate :: cint
  bitrate_limit :: cint
  vsize :: MSVideoSize
  fps :: cfloat

text \<open>
  Modelled from the spec: \<^verbatim>\<open>ms_video_size_equal\<close> is an inline function of
  \<^verbatim>\<open>mediastreamer2/msvideo.h\<close>; the spec reads its negation as "the candidate's resolution
  differs from lastRequestedSize".
\<close>

definition ms_video_size_equal :: "MSVideoSize \<Rightarrow> MSVideoSize \<Rightarrow> bool" where
  "ms_video_size_equal vs1 vs2 \<longleftrightarrow> width vs1 = width vs2 \<and> height vs1 = height vs2"

text \<open>
  The calls that leave the file, with their arguments: the four filter methods, the two
  ranking routines, the camera switch, and (first in each group) the entry into
  \<^verbatim>\<open>update_video_quality_from_bitrate\<close> itself with its three arguments.
\<close>

datatype call =
    Update_video_quality cint cfloat bool
  | Encoder_get_configuration_list
  | Encoder_get_configuration
  | Find_best_configuration_for_bitrate "MSVideoConfiguration list" cint cint
  | Find_best_configuration_for_size_and_bitrate "MSVideoConfiguration list" MSVideoSize cint cint
  | Change_camera_skip_bitrate
  | Source_set_fps cfloat
  | Encoder_set_configuration MSVideoConfiguration

text \<open>
  Modelled from the spec: \<^verbatim>\<open>struct _VideoStream\<close> is declared in
  \<^verbatim>\<open>mediastreamer2/mediastream.h\<close>. The four fields the controller assigns are fields here;
  \<open>filters\<close> stands for everything the controller reaches only through calls
  (\<^verbatim>\<open>ms.encoder\<close>, \<^verbatim>\<open>source\<close>, \<^verbatim>\<open>cam\<close>, \<^verbatim>\<open>ms.factory\<close>).
\<close>

record 'w VideoStream =
  sent_vsize :: MSVideoSize
  preview_vsize :: MSVideoSize
  forced_fps :: cfloat
  configured_fps :: cfloat
  filters :: 'w

text \<open>
  Modelled from the spec: \<^verbatim>\<open>struct _MSVideoQualityController\<close> is declared in
  \<^verbatim>\<open>mediastreamer2/msvideoqualitycontroller.h\<close>. The spec's \<open>lastBandwidth\<close> is
  \<open>last_tmmbr\<close>, \<open>lastRequestedSize\<close> is \<open>last_vsize\<close>, and \<open>increaseTimer\<close> is the pair
  \<open>increase_timer_start\<close>, \<open>increase_timer_running\<close>. \<open>stream\<close> is the pointee of the
  \<^verbatim>\<open>stream\<close> pointer; \<open>calls\<close> is the ghost call log.
\<close>

record 'w MSVideoQualityController =
  stream :: "'w VideoStream"
  last_tmmbr :: cint
  last_vsize :: MSVideoSize
  increase_timer_start :: time_t
  increase_timer_running :: bool
  calls :: "call list"

text \<open>
  The collaborators. \<open>get_configuration_list\<close> is \<open>None\<close> when the pointer the C code
  passes stays \<^verbatim>\<open>NULL\<close> (the encoder has no such method, or no list): the only empty list
  there is in C, where a list that exists ends with an entry of its own.
  \<open>set_configuration\<close> returns the status of the call beside the new filters.
  \<open>change_camera\<close> is \<^verbatim>\<open>video_stream_change_camera_skip_bitrate\<close>, which is handed the whole
  stream. The types say what a call may touch: the three queries nothing, a filter method
  the filters, the camera switch the stream with its filters; none of them reaches the
  controller's own fields.
\<close>

record 'w collaborators =
  get_configuration_list :: "'w \<Rightarrow> MSVideoConfiguration list option"
  get_configuration :: "'w \<Rightarrow> MSVideoConfiguration"
  set_configuration :: "MSVideoConfiguration \<Rightarrow> 'w \<Rightarrow> cint \<times> 'w"
  set_fps :: "cfloat \<Rightarrow> 'w \<Rightarrow> 'w"
  get_cpu_count :: "'w \<Rightarrow> cint"
  find_best_configuration_for_bitrate ::
    "MSVideoConfiguration list \<Rightarrow> cint \<Rightarrow> cint \<Rightarrow> MSVideoConfiguration"
  find_best_configuration_for_size_and_bitrate ::
    "MSVideoConfiguration list \<Rightarrow> MSVideoSize \<Rightarrow> cint \<Rightarrow> cint \<Rightarrow> MSVideoConfiguration"
  change_camera :: "'w VideoStream \<Rightarrow> 'w VideoStream"

subsection \<open>Single-precision arithmetic\<close>

text \<open>
  \<^verbatim>\<open>(int) (bitrate / bitrate_threshold)\<close> converts \<^verbatim>\<open>bitrate\<close> to \<^verbatim>\<open>float\<close>, divides in
  \<^verbatim>\<open>float\<close> and truncates towards zero. Where \<^verbatim>\<open>float\<close> expressions are evaluated in
  \<^verbatim>\<open>float\<close> (\<^verbatim>\<open>FLT_EVAL_METHOD\<close> 0, as on x86-64 and ARM), both the conversion and the division
  round to the nearest value with a 24-bit significand, ties to even. The exponent range of
  the format is left out. The quotient of a 32-bit integer by \<^verbatim>\<open>1.0f\<close> or \<^verbatim>\<open>1.3f\<close>, the only
  thresholds the file passes, is zero or lies between \<open>1/2\<close> and \<open>2 ^ 31\<close> in magnitude; for
  any other divisor a quotient beyond the largest \<^verbatim>\<open>float\<close> is beyond \<^verbatim>\<open>int\<close> too, and one
  below the smallest normal \<^verbatim>\<open>float\<close> truncates to 0 with or without the range.
\<close>

definition float_exponent :: "rat \<Rightarrow> int" where
  "float_exponent x =
     (let a = \<bar>x\<bar> in if 1 \<le> a then bitlen \<lfloor>a\<rfloor> - 1 else - bitlen (\<lceil>1 / a\<rceil> - 1))"

definition round_half_even :: "rat \<Rightarrow> int" where
  "round_half_even m =
     (let f = \<lfloor>m\<rfloor>; d = m - of_int f
      in if d < 1 / 2 then f else if 1 / 2 < d then f + 1 else if even f then f else f + 1)"

definition f32_round :: "rat \<Rightarrow> cfloat" where
  "f32_round x =
     (if x = 0 then 0
      else let ulp = 2 powi (float_exponent x - 23) in of_int (round_half_even (x / ulp)) * ulp)"

text \<open>
  The conversion of a \<^verbatim>\<open>float\<close> to \<^verbatim>\<open>int\<close> discards the fractional part. When the result
  does not fit, and when the quotient is not a number at all (a zero divisor), C leaves the
  behaviour undefined; the model takes the value x86 produces there, \<^verbatim>\<open>0x80000000\<close>.
\<close>

definition truncation :: "cfloat \<Rightarrow> int" where
  "truncation q = (if q < 0 then - \<lfloor>- q\<rfloor> else \<lfloor>q\<rfloor>)"

definition float_to_int :: "cfloat \<Rightarrow> cint" where
  "float_to_int q =
     (if - (2 ^ 31) \<le> truncation q \<and> truncation q < 2 ^ 31 then word_of_int (truncation q)
      else 0x80000000)"

definition float_quotient :: "cint \<Rightarrow> cfloat \<Rightarrow> cfloat" where
  "float_quotient bitrate bitrate_threshold =
     f32_round (f32_round (of_int (sint bitrate)) / bitrate_threshold)"

definition scaled_bitrate :: "cint \<Rightarrow> cfloat \<Rightarrow> cint" where
  "scaled_bitrate bitrate bitrate_threshold =
     (if bitrate_threshold = 0 then 0x80000000
      else float_to_int (float_quotient bitrate bitrate_threshold))"

definition INCREASE_TIMER_DELAY :: time_t where
  "INCREASE_TIMER_DELAY = 10"

definition INCREASE_BITRATE_THRESHOLD :: cfloat where
  "INCREASE_BITRATE_THRESHOLD = f32_round (13 / 10)"

text \<open>
  C defines \<^verbatim>\<open>current_time - obj->increase_timer_start\<close> when the difference of the two
  values fits \<^verbatim>\<open>time_t\<close>. Two clock readings that count seconds from the epoch are not
  negative, and their difference fits.
\<close>

definition difference_fits :: "time_t \<Rightarrow> time_t \<Rightarrow> bool" where
  "difference_fits current_time start \<longleftrightarrow>
     - (2 ^ 63) \<le> sint current_time - sint start \<and> sint current_time - sint start < 2 ^ 63"

subsection \<open>The controller\<close>

definition ms_video_quality_controller_new ::
  "'w VideoStream \<Rightarrow> 'w MSVideoQualityController" where
  "ms_video_quality_controller_new s =
     \<lparr>stream = s, last_tmmbr = - 1, last_vsize = \<lparr>width = 0, height = 0\<rparr>,
      increase_timer_start = 0, increase_timer_running = False, calls = []\<rparr>"

definition record_call :: "call \<Rightarrow> 'w MSVideoQualityController \<Rightarrow> 'w MSVideoQualityController" where
  "record_call c obj = obj\<lparr>calls := calls obj @ [c]\<rparr>"

definition map_filters ::
  "('w \<Rightarrow> 'w) \<Rightarrow> 'w MSVideoQualityController \<Rightarrow> 'w MSVideoQualityController" where
  "map_filters f obj = obj\<lparr>stream := (stream obj)\<lparr>filters := f (filters (stream obj))\<rparr>\<rparr>"

text \<open>Lines 57 to 65: the resolution change, after which the C function returns.\<close>

definition change_video_definition ::
  "'w collaborators \<Rightarrow> 'w MSVideoQualityController \<Rightarrow> MSVideoConfiguration
     \<Rightarrow> 'w MSVideoQualityController" where
  "change_video_definition env obj best_vconf =
     (let s = (stream obj)\<lparr>sent_vsize := vsize best_vconf,
                            preview_vsize := vsize best_vconf,
                            forced_fps := fps best_vconf\<rparr>
      in (record_call Change_camera_skip_bitrate obj)
           \<lparr>stream := change_camera env s, last_vsize := vsize best_vconf\<rparr>)"

text \<open>
  Lines 69 to 84: the search at the current size, the frame rate, the bitrate limit and the
  new encoder configuration. A failed \<^verbatim>\<open>MS_VIDEO_ENCODER_SET_CONFIGURATION\<close> only prints a
  warning, so the status is dropped.
\<close>

definition tune_fps_and_bitrate ::
  "'w collaborators \<Rightarrow> 'w MSVideoQualityController \<Rightarrow> MSVideoConfiguration list
     \<Rightarrow> MSVideoConfiguration \<Rightarrow> cint \<Rightarrow> 'w MSVideoQualityController" where
  "tune_fps_and_bitrate env obj vconf_list current_vconf bitrate =
     (let cpu = get_cpu_count env (filters (stream obj));
          vconf = find_best_configuration_for_size_and_bitrate env vconf_list
                    (vsize current_vconf) cpu bitrate;
          obj1 = record_call (Find_best_configuration_for_size_and_bitrate vconf_list
                    (vsize current_vconf) cpu bitrate) obj;
          (current_vconf1, obj2) =
            (if fps current_vconf \<noteq> fps vconf
             then (current_vconf\<lparr>fps := fps vconf\<rparr>,
                   (let o1 = map_filters (set_fps env (fps vconf))
                               (record_call (Source_set_fps (fps vconf)) obj1)
                    in o1\<lparr>stream := (stream o1)\<lparr>configured_fps := fps vconf\<rparr>\<rparr>))
             else (current_vconf, obj1));
          new_bitrate_limit = (if bitrate <s bitrate_limit vconf then bitrate
                               else bitrate_limit vconf);
          current_vconf2 = current_vconf1\<lparr>required_bitrate := new_bitrate_limit\<rparr>
      in map_filters (\<lambda>w. snd (set_configuration env current_vconf2 w))
           (record_call (Encoder_set_configuration current_vconf2) obj2))"

definition update_video_quality_from_bitrate ::
  "'w collaborators \<Rightarrow> 'w MSVideoQualityController \<Rightarrow> cint \<Rightarrow> cfloat \<Rightarrow> bool
     \<Rightarrow> 'w MSVideoQualityController" where
  "update_video_quality_from_bitrate env obj bitrate bitrate_threshold update_only_fps =
     (let obj0 = record_call Encoder_get_configuration_list
                   (record_call (Update_video_quality bitrate bitrate_threshold update_only_fps) obj)
      in case get_configuration_list env (filters (stream obj0)) of
           None \<Rightarrow> obj0
         | Some vconf_list \<Rightarrow>
             (let current_vconf = get_configuration env (filters (stream obj0));
                  obj1 = record_call Encoder_get_configuration obj0
              in if \<not> update_only_fps then
                   (let target = scaled_bitrate bitrate bitrate_threshold;
                        cpu = get_cpu_count env (filters (stream obj1));
                        best_vconf = find_best_configuration_for_bitrate env vconf_list target cpu;
                        obj2 = record_call (Find_best_configuration_for_bitrate vconf_list target cpu) obj1
                    in if \<not> ms_video_size_equal (last_vsize obj2) (vsize best_vconf)
                          \<and> width (vsize best_vconf) * height (vsize best_vconf)
                              \<noteq> width (vsize current_vconf) * height (vsize current_vconf)
                       then change_video_definition env obj2 best_vconf
                       else tune_fps_and_bitrate env obj2 vconf_list current_vconf bitrate)
                 else tune_fps_and_bitrate env obj1 vconf_list current_vconf bitrate))"

definition ms_video_quality_controller_process_timer ::
  "'w collaborators \<Rightarrow> time_t \<Rightarrow> 'w MSVideoQualityController \<Rightarrow> 'w MSVideoQualityController" where
  "ms_video_quality_controller_process_timer env current_time obj =
     (if increase_timer_running obj then
        (if INCREASE_TIMER_DELAY \<le>s current_time - increase_timer_start obj then
           (update_video_quality_from_bitrate env obj (last_tmmbr obj)
              INCREASE_BITRATE_THRESHOLD False)\<lparr>increase_timer_running := False\<rparr>
         else obj)
      else obj)"

text \<open>Lines 116 to 128: the comparison with the last feedback, and the assignment that ends it.\<close>

definition compare_with_last_tmmbr ::
  "'w collaborators \<Rightarrow> time_t \<Rightarrow> 'w MSVideoQualityController \<Rightarrow> cint
     \<Rightarrow> 'w MSVideoQualityController" where
  "compare_with_last_tmmbr env now obj tmmbr =
     (let obj1 =
        (if last_tmmbr obj <s tmmbr then
           update_video_quality_from_bitrate env
             (obj\<lparr>increase_timer_start := now,
                  increase_timer_running :=
                     (if \<not> increase_timer_running obj then True else increase_timer_running obj)\<rparr>)
             tmmbr 1 True
         else if tmmbr <s last_tmmbr obj then
           update_video_quality_from_bitrate env
             (obj\<lparr>increase_timer_running :=
                     (if increase_timer_running obj then False else increase_timer_running obj)\<rparr>)
             tmmbr 1 False
         else obj)
      in obj1\<lparr>last_tmmbr := tmmbr\<rparr>)"

definition ms_video_quality_controller_update_from_tmmbr ::
  "'w collaborators \<Rightarrow> time_t \<Rightarrow> 'w MSVideoQualityController \<Rightarrow> cint
     \<Rightarrow> 'w MSVideoQualityController" where
  "ms_video_quality_controller_update_from_tmmbr env now obj tmmbr =
     (if last_tmmbr obj = - 1 then
        (let current_vconf = get_configuration env (filters (stream obj));
             obj1 = record_call Encoder_get_configuration obj
         in if tmmbr <s required_bitrate current_vconf then
              (update_video_quality_from_bitrate env obj1 tmmbr 1 False)\<lparr>last_tmmbr := tmmbr\<rparr>
            else compare_with_last_tmmbr env now obj1 tmmbr)
      else compare_with_last_tmmbr env now obj tmmbr)"

text \<open>
  The host calls the two entry points one at a time. An event carries the value the clock
  shows during the call.
\<close>

datatype event = Tmmbr time_t cint | Tick time_t

fun handle :: "'w collaborators \<Rightarrow> 'w MSVideoQualityController \<Rightarrow> event
    \<Rightarrow> 'w MSVideoQualityController" where
  "handle env obj (Tmmbr now tmmbr) = ms_video_quality_controller_update_from_tmmbr env now obj tmmbr"
| "handle env obj (Tick now) = ms_video_quality_controller_process_timer env now obj"

definition run :: "'w collaborators \<Rightarrow> 'w MSVideoQualityController \<Rightarrow> event list
    \<Rightarrow> 'w MSVideoQualityController" where
  "run env obj evs = foldl (handle env) obj evs"

subsection \<open>Reading the call log\<close>

text \<open>
  What a call log says about one kind of call: the arguments of the entries into
  \<^verbatim>\<open>update_video_quality_from_bitrate\<close>, the targets handed to the search by bitrate, the
  sizes and bitrates handed to the search at a fixed size, the configurations and the frame
  rates written, and the number of camera switches.
\<close>

primrec adjustments :: "call list \<Rightarrow> (cint \<times> cfloat \<times> bool) list" where
  "adjustments [] = []"
| "adjustments (c # cs) =
     (case c of Update_video_quality b t f \<Rightarrow> (b, t, f) # adjustments cs | _ \<Rightarrow> adjustments cs)"

primrec bitrate_searches :: "call list \<Rightarrow> cint list" where
  "bitrate_searches [] = []"
| "bitrate_searches (c # cs) =
     (case c of Find_best_configuration_for_bitrate l b n \<Rightarrow> b # bitrate_searches cs
      | _ \<Rightarrow> bitrate_searches cs)"

primrec size_searches :: "call list \<Rightarrow> (MSVideoSize \<times> cint) list" where
  "size_searches [] = []"
| "size_searches (c # cs) =
     (case c of Find_best_configuration_for_size_and_bitrate l s n b \<Rightarrow> (s, b) # size_searches cs
      | _ \<Rightarrow> size_searches cs)"

primrec configurations_set :: "call list \<Rightarrow> MSVideoConfiguration list" where
  "configurations_set [] = []"
| "configurations_set (c # cs) =
     (case c of Encoder_set_configuration v \<Rightarrow> v # configurations_set cs
      | _ \<Rightarrow> configurations_set cs)"

primrec fps_set :: "call list \<Rightarrow> cfloat list" where
  "fps_set [] = []"
| "fps_set (c # cs) =
     (case c of Source_set_fps v \<Rightarrow> v # fps_set cs | _ \<Rightarrow> fps_set cs)"

primrec camera_changes :: "call list \<Rightarrow> nat" where
  "camera_changes [] = 0"
| "camera_changes (c # cs) =
     (case c of Change_camera_skip_bitrate \<Rightarrow> Suc (camera_changes cs) | _ \<Rightarrow> camera_changes cs)"

subsection \<open>The values the routine computes on its way\<close>

text \<open>
  Names for the expressions of \<^verbatim>\<open>update_video_quality_from_bitrate\<close>, as functions of the
  controller at entry: \<^verbatim>\<open>current_vconf\<close> (line 50), the CPU count, \<^verbatim>\<open>best_vconf\<close> (line 54),
  the test of line 56, \<^verbatim>\<open>vconf\<close> (line 69) and the configuration handed to the encoder on
  line 82.
\<close>

definition current_configuration ::
  "'w collaborators \<Rightarrow> 'w MSVideoQualityController \<Rightarrow> MSVideoConfiguration" where
  "current_configuration env obj = get_configuration env (filters (stream obj))"

definition cpu_count :: "'w collaborators \<Rightarrow> 'w MSVideoQualityController \<Rightarrow> cint" where
  "cpu_count env obj = get_cpu_count env (filters (stream obj))"

definition best_for_bitrate ::
  "'w collaborators \<Rightarrow> 'w MSVideoQualityController \<Rightarrow> MSVideoConfiguration list \<Rightarrow> cint
     \<Rightarrow> cfloat \<Rightarrow> MSVideoConfiguration" where
  "best_for_bitrate env obj l bitrate thr =
     find_best_configuration_for_bitrate env l (scaled_bitrate bitrate thr) (cpu_count env obj)"

definition best_for_size ::
  "'w collaborators \<Rightarrow> 'w MSVideoQualityController \<Rightarrow> MSVideoConfiguration list \<Rightarrow> cint
     \<Rightarrow> MSVideoConfiguration" where
  "best_for_size env obj l bitrate =
     find_best_configuration_for_size_and_bitrate env l (vsize (current_configuration env obj))
       (cpu_count env obj) bitrate"

definition pixels :: "MSVideoSize \<Rightarrow> cint" where
  "pixels vs = width vs * height vs"

definition changes_definition ::
  "'w collaborators \<Rightarrow> 'w MSVideoQualityController \<Rightarrow> MSVideoConfiguration list \<Rightarrow> cint
     \<Rightarrow> cfloat \<Rightarrow> bool" where
  "changes_definition env obj l bitrate thr \<longleftrightarrow>
     \<not> ms_video_size_equal (last_vsize obj) (vsize (best_for_bitrate env obj l bitrate thr))
     \<and> pixels (vsize (best_for_bitrate env obj l bitrate thr))
         \<noteq> pixels (vsize (current_configuration env obj))"

definition applied_configuration ::
  "'w collaborators \<Rightarrow> 'w MSVideoQualityController \<Rightarrow> MSVideoConfiguration list \<Rightarrow> cint
     \<Rightarrow> MSVideoConfiguration" where
  "applied_configuration env obj l bitrate =
     (if fps (current_configuration env obj) \<noteq> fps (best_for_size env obj l bitrate)
      then (current_configuration env obj)\<lparr>fps := fps (best_for_size env obj l bitrate)\<rparr>
      else current_configuration env obj)
       \<lparr>required_bitrate :=
          (if bitrate <s bitrate_limit (best_for_size env obj l bitrate) then bitrate
           else bitrate_limit (best_for_size env obj l bitrate))\<rparr>"

definition tuning_calls ::
  "'w collaborators \<Rightarrow> 'w MSVideoQualityController \<Rightarrow> MSVideoConfiguration list \<Rightarrow> cint
     \<Rightarrow> call list" where
  "tuning_calls env obj l bitrate =
     Find_best_configuration_for_size_and_bitrate l (vsize (current_configuration env obj))
       (cpu_count env obj) bitrate
     # (if fps (current_configuration env obj) \<noteq> fps (best_for_size env obj l bitrate)
        then [Source_set_fps (fps (best_for_size env obj l bitrate))] else [])
     @ [Encoder_set_configuration (applied_configuration env obj l bitrate)]"

definition tuned_stream ::
  "'w collaborators \<Rightarrow> 'w MSVideoQualityController \<Rightarrow> MSVideoConfiguration list \<Rightarrow> cint
     \<Rightarrow> 'w VideoStream" where
  "tuned_stream env obj l bitrate =
     (if fps (current_configuration env obj) \<noteq> fps (best_for_size env obj l bitrate)
      then (stream obj)
             \<lparr>configured_fps := fps (best_for_size env obj l bitrate),
              filters := snd (set_configuration env (applied_configuration env obj l bitrate)
                           (set_fps env (fps (best_for_size env obj l bitrate))
                              (filters (stream obj))))\<rparr>
      else (stream obj)
             \<lparr>filters := snd (set_configuration env (applied_configuration env obj l bitrate)
                           (filters (stream obj)))\<rparr>)"

text \<open>The caller contract on feedback values: they are not negative.\<close>

fun within_contract :: "event \<Rightarrow> bool" where
  "within_contract (Tmmbr now tmmbr) = (0 \<le>s tmmbr)"
| "within_contract (Tick now) = True"

fun is_tick :: "event \<Rightarrow> bool" where
  "is_tick (Tmmbr now tmmbr) = False"
| "is_tick (Tick now) = True"

subsection \<open>A scripted encoder\<close>

text \<open>
  A small instance of the collaborators, on which the theorems below are exercised: an
  encoder with four configurations, ordered from the largest to the smallest, whose
  \<^verbatim>\<open>SET_CONFIGURATION\<close> stores what it is given; a source that stores its frame rate; two
  ranking routines that take the first configuration of the list whose required bitrate the
  target covers; a camera switch that leaves the stream as it is.
\<close>

record demo_filters =
  encoder_list :: "MSVideoConfiguration list option"
  encoder_conf :: MSVideoConfiguration
  source_fps :: cfloat

definition conf_720p :: MSVideoConfiguration where
  "conf_720p = \<lparr>required_bitrate = 1024000, bitrate_limit = 1536000,
     vsize = \<lparr>width = 1280, height = 720\<rparr>, fps = 30\<rparr>"

definition conf_vga_30 :: MSVideoConfiguration where
  "conf_vga_30 = \<lparr>required_bitrate = 500000, bitrate_limit = 1024000,
     vsize = \<lparr>width = 640, height = 480\<rparr>, fps = 30\<rparr>"

definition conf_vga_15 :: MSVideoConfiguration where
  "conf_vga_15 = \<lparr>required_bitrate = 300000, bitrate_limit = 500000,
     vsize = \<lparr>width = 640, height = 480\<rparr>, fps = 15\<rparr>"

definition conf_qcif :: MSVideoConfiguration where
  "conf_qcif = \<lparr>required_bitrate = 0, bitrate_limit = 300000,
     vsize = \<lparr>width = 176, height = 144\<rparr>, fps = 10\<rparr>"

definition demo_list :: "MSVideoConfiguration list" where
  "demo_list = [conf_720p, conf_vga_30, conf_vga_15, conf_qcif]"

definition demo_best_for_bitrate ::
  "MSVideoConfiguration list \<Rightarrow> cint \<Rightarrow> cint \<Rightarrow> MSVideoConfiguration" where
  "demo_best_for_bitrate l target cpu =
     (case filter (\<lambda>c. required_bitrate c \<le>s target) l of [] \<Rightarrow> conf_qcif | c # _ \<Rightarrow> c)"

definition demo_best_for_size ::
  "MSVideoConfiguration list \<Rightarrow> MSVideoSize \<Rightarrow> cint \<Rightarrow> cint \<Rightarrow> MSVideoConfiguration" where
  "demo_best_for_size l sz cpu bitrate =
     (case filter (\<lambda>c. vsize c = sz \<and> required_bitrate c \<le>s bitrate) l of
        [] \<Rightarrow> conf_qcif | c # _ \<Rightarrow> c)"

definition demo_env :: "demo_filters collaborators" where
  "demo_env =
     \<lparr>get_configuration_list = encoder_list,
      get_configuration = encoder_conf,
      set_configuration = (\<lambda>c w. (0, w\<lparr>encoder_conf := c\<rparr>)),
      set_fps = (\<lambda>f w. w\<lparr>source_fps := f\<rparr>),
      get_cpu_count = (\<lambda>w. 4),
      find_best_configuration_for_bitrate = demo_best_for_bitrate,
      find_best_configuration_for_size_and_bitrate = demo_best_for_size,
      change_camera = (\<lambda>s. s)\<rparr>"

definition demo_stream :: "demo_filters VideoStream" where
  "demo_stream =
     \<lparr>sent_vsize = \<lparr>width = 640, height = 480\<rparr>, preview_vsize = \<lparr>width = 640, height = 480\<rparr>,
      forced_fps = 0, configured_fps = 30,
      filters = \<lparr>encoder_list = Some demo_list, encoder_conf = conf_vga_30, source_fps = 30\<rparr>\<rparr>"

text \<open>The same stream with an encoder that has no configuration list.\<close>

definition fixed_stream :: "demo_filters VideoStream" where
  "fixed_stream = demo_stream\<lparr>filters := (filters demo_stream)\<lparr>encoder_list := None\<rparr>\<rparr>"

text \<open>
  The controller of the demo stream when it is created, after a first feedback of
  300 kbit/s, and after a second feedback of 600 kbit/s or of 1400 kbit/s that starts the
  timer at time 105.
\<close>

definition demo_obj :: "demo_filters MSVideoQualityController" where
  "demo_obj = ms_video_quality_controller_new demo_stream"

definition demo_tracking :: "demo_filters MSVideoQualityController" where
  "demo_tracking = run demo_env demo_obj [Tmmbr 100 300000]"

definition demo_armed :: "demo_filters MSVideoQualityController" where
  "demo_armed = run demo_env demo_obj [Tmmbr 100 300000, Tmmbr 105 600000]"

definition demo_armed_high :: "demo_filters MSVideoQualityController" where
  "demo_armed_high = run demo_env demo_obj [Tmmbr 100 300000, Tmmbr 105 1400000]"


text \<open>
  An encoder whose largest configuration requires 3846161 bit/s, one more than the exact
  quotient of 5000009 by 1.3 reaches, and its controller after a first feedback of
  5000009 bit/s at time 100 and a tick at time 110.
\<close>

definition conf_edge :: MSVideoConfiguration where
  "conf_edge = \<lparr>required_bitrate = 3846161, bitrate_limit = 6000000,
     vsize = \<lparr>width = 1280, height = 720\<rparr>, fps = 30\<rparr>"

definition edge_stream :: "demo_filters VideoStream" where
  "edge_stream = demo_stream\<lparr>filters := (filters demo_stream)
     \<lparr>encoder_list := Some [conf_edge, conf_vga_30, conf_vga_15, conf_qcif]\<rparr>\<rparr>"

definition edge_fired :: "demo_filters MSVideoQualityController" where
  "edge_fired = run demo_env (ms_video_quality_controller_new edge_stream)
     [Tmmbr 100 5000009, Tick 110]"

section \<open>Facts about the routine\<close>

lemma adjustments_append [simp]: "adjustments (xs @ ys) = adjustments xs @ adjustments ys"
  by (induction xs) (simp_all split: call.split)

lemma bitrate_searches_append [simp]:
  "bitrate_searches (xs @ ys) = bitrate_searches xs @ bitrate_searches ys"
  by (induction xs) (simp_all split: call.split)

lemma size_searches_append [simp]:
  "size_searches (xs @ ys) = size_searches xs @ size_searches ys"
  by (induction xs) (simp_all split: call.split)

lemma configurations_set_append [simp]:
  "configurations_set (xs @ ys) = configurations_set xs @ configurations_set ys"
  by (induction xs) (simp_all split: call.split)

lemma fps_set_append [simp]: "fps_set (xs @ ys) = fps_set xs @ fps_set ys"
  by (induction xs) (simp_all split: call.split)

lemma camera_changes_append [simp]:
  "camera_changes (xs @ ys) = camera_changes xs + camera_changes ys"
  by (induction xs) (simp_all split: call.split)

lemmas observers =
  current_configuration_def cpu_count_def best_for_bitrate_def best_for_size_def pixels_def
  changes_definition_def applied_configuration_def

text \<open>The four ways through \<^verbatim>\<open>update_video_quality_from_bitrate\<close>, each as one equation.\<close>

lemma update_without_list:
  assumes "get_configuration_list env (filters (stream obj)) = None"
  shows "update_video_quality_from_bitrate env obj bitrate thr only_fps =
    obj\<lparr>calls := calls obj @
          [Update_video_quality bitrate thr only_fps, Encoder_get_configuration_list]\<rparr>"
  using assms by (simp add: update_video_quality_from_bitrate_def record_call_def)

lemma update_changes_definition:
  assumes "get_configuration_list env (filters (stream obj)) = Some l"
    and "changes_definition env obj l bitrate thr"
  shows "update_video_quality_from_bitrate env obj bitrate thr False =
    obj\<lparr>stream := change_camera env
            ((stream obj)\<lparr>sent_vsize := vsize (best_for_bitrate env obj l bitrate thr),
                          preview_vsize := vsize (best_for_bitrate env obj l bitrate thr),
                          forced_fps := fps (best_for_bitrate env obj l bitrate thr)\<rparr>),
        last_vsize := vsize (best_for_bitrate env obj l bitrate thr),
        calls := calls obj @
          [Update_video_quality bitrate thr False, Encoder_get_configuration_list,
           Encoder_get_configuration,
           Find_best_configuration_for_bitrate l (scaled_bitrate bitrate thr) (cpu_count env obj),
           Change_camera_skip_bitrate]\<rparr>"
  using assms
  by (simp add: update_video_quality_from_bitrate_def change_video_definition_def record_call_def
      Let_def observers)

lemma tune_fps_and_bitrate_eq:
  "tune_fps_and_bitrate env (obj\<lparr>calls := cs\<rparr>) l (current_configuration env obj) bitrate =
     obj\<lparr>calls := cs @ tuning_calls env obj l bitrate,
         stream := tuned_stream env obj l bitrate\<rparr>"
  by (simp add: tune_fps_and_bitrate_def record_call_def map_filters_def Let_def observers
      tuning_calls_def tuned_stream_def)

lemma update_tunes_only_fps:
  assumes "get_configuration_list env (filters (stream obj)) = Some l"
  shows "update_video_quality_from_bitrate env obj bitrate thr True =
    obj\<lparr>calls := calls obj @
          [Update_video_quality bitrate thr True, Encoder_get_configuration_list,
           Encoder_get_configuration] @ tuning_calls env obj l bitrate,
        stream := tuned_stream env obj l bitrate\<rparr>"
  using assms
    tune_fps_and_bitrate_eq [where env = env and obj = obj and l = l and bitrate = bitrate]
  by (simp add: update_video_quality_from_bitrate_def record_call_def Let_def
      current_configuration_def)

lemma update_keeps_definition:
  assumes "get_configuration_list env (filters (stream obj)) = Some l"
    and "\<not> changes_definition env obj l bitrate thr"
  shows "update_video_quality_from_bitrate env obj bitrate thr False =
    obj\<lparr>calls := calls obj @
          [Update_video_quality bitrate thr False, Encoder_get_configuration_list,
           Encoder_get_configuration,
           Find_best_configuration_for_bitrate l (scaled_bitrate bitrate thr) (cpu_count env obj)]
          @ tuning_calls env obj l bitrate,
        stream := tuned_stream env obj l bitrate\<rparr>"
  using assms
    tune_fps_and_bitrate_eq [where env = env and obj = obj and l = l and bitrate = bitrate]
  by (auto simp: update_video_quality_from_bitrate_def record_call_def Let_def
      current_configuration_def changes_definition_def best_for_bitrate_def pixels_def
      cpu_count_def)

lemma update_cases:
  obtains
    (no_list) "get_configuration_list env (filters (stream obj)) = None"
  | (change) l where "get_configuration_list env (filters (stream obj)) = Some l"
      "\<not> only_fps" "changes_definition env obj l bitrate thr"
  | (tune_only_fps) l where "get_configuration_list env (filters (stream obj)) = Some l"
      "only_fps"
  | (tune) l where "get_configuration_list env (filters (stream obj)) = Some l"
      "\<not> only_fps" "\<not> changes_definition env obj l bitrate thr"
  by (cases "get_configuration_list env (filters (stream obj))") auto

lemmas update_eqs =
  update_without_list update_changes_definition update_tunes_only_fps update_keeps_definition

lemma update_keeps_last_tmmbr:
  "last_tmmbr (update_video_quality_from_bitrate env obj bitrate thr only_fps) = last_tmmbr obj"
  by (cases rule: update_cases [where env = env and obj = obj and only_fps = only_fps
      and bitrate = bitrate and thr = thr]) (simp_all add: update_eqs)

lemma update_keeps_timer_start:
  "increase_timer_start (update_video_quality_from_bitrate env obj bitrate thr only_fps)
     = increase_timer_start obj"
  by (cases rule: update_cases [where env = env and obj = obj and only_fps = only_fps
      and bitrate = bitrate and thr = thr]) (simp_all add: update_eqs)

lemma update_keeps_timer_running:
  "increase_timer_running (update_video_quality_from_bitrate env obj bitrate thr only_fps)
     = increase_timer_running obj"
  by (cases rule: update_cases [where env = env and obj = obj and only_fps = only_fps
      and bitrate = bitrate and thr = thr]) (simp_all add: update_eqs)

lemma update_adjustments:
  "adjustments (calls (update_video_quality_from_bitrate env obj bitrate thr only_fps))
     = adjustments (calls obj) @ [(bitrate, thr, only_fps)]"
  by (cases rule: update_cases [where env = env and obj = obj and only_fps = only_fps
      and bitrate = bitrate and thr = thr])
    (simp_all add: update_eqs tuning_calls_def)


lemma run_Nil [simp]: "run env obj [] = obj"
  by (simp add: run_def)

lemma run_snoc [simp]: "run env obj (evs @ [e]) = handle env (run env obj evs) e"
  by (simp add: run_def)

lemma run_Cons: "run env obj (e # evs) = run env (handle env obj e) evs"
  by (simp add: run_def)

lemma compare_sets_last_tmmbr: "last_tmmbr (compare_with_last_tmmbr env now obj tmmbr) = tmmbr"
  by (simp add: compare_with_last_tmmbr_def Let_def)

lemma feedback_sets_last_tmmbr:
  "last_tmmbr (ms_video_quality_controller_update_from_tmmbr env now obj tmmbr) = tmmbr"
  by (simp add: ms_video_quality_controller_update_from_tmmbr_def Let_def compare_sets_last_tmmbr)

lemma timer_keeps_last_tmmbr:
  "last_tmmbr (ms_video_quality_controller_process_timer env now obj) = last_tmmbr obj"
  by (simp add: ms_video_quality_controller_process_timer_def update_keeps_last_tmmbr)

lemma timer_keeps_timer_start:
  "increase_timer_start (ms_video_quality_controller_process_timer env now obj)
     = increase_timer_start obj"
  by (simp add: ms_video_quality_controller_process_timer_def update_keeps_timer_start)


lemma nonneg_not_sentinel: "0 \<le>s (t :: cint) \<Longrightarrow> t \<noteq> - 1"
  by (auto simp: word_sle_eq)

lemma handle_keeps_tracking:
  assumes "last_tmmbr obj \<noteq> - 1" and "within_contract e"
  shows "last_tmmbr (handle env obj e) \<noteq> - 1"
  using assms
  by (cases e) (simp_all add: feedback_sets_last_tmmbr timer_keeps_last_tmmbr nonneg_not_sentinel)

lemma run_keeps_tracking:
  assumes "last_tmmbr obj \<noteq> - 1" and "\<forall>e\<in>set evs. within_contract e"
  shows "last_tmmbr (run env obj evs) \<noteq> - 1"
  using assms(2)
proof (induction evs rule: rev_induct)
  case Nil
  show ?case using assms(1) by simp
next
  case (snoc e evs)
  then show ?case by (simp add: handle_keeps_tracking)
qed




lemma compare_increase:
  assumes "last_tmmbr obj <s tmmbr"
  shows "compare_with_last_tmmbr env now obj tmmbr =
    (update_video_quality_from_bitrate env
       (obj\<lparr>increase_timer_start := now, increase_timer_running := True\<rparr>) tmmbr 1 True)
      \<lparr>last_tmmbr := tmmbr\<rparr>"
  using assms by (simp add: compare_with_last_tmmbr_def)


lemma compare_equal:
  assumes "\<not> last_tmmbr obj <s tmmbr" "\<not> tmmbr <s last_tmmbr obj"
  shows "compare_with_last_tmmbr env now obj tmmbr = obj\<lparr>last_tmmbr := tmmbr\<rparr>"
  using assms by (simp add: compare_with_last_tmmbr_def)

lemma compare_adjustments:
  "adjustments (calls (compare_with_last_tmmbr env now obj tmmbr)) =
     adjustments (calls obj) @
       (if last_tmmbr obj <s tmmbr then [(tmmbr, 1, True)]
        else if tmmbr <s last_tmmbr obj then [(tmmbr, 1, False)] else [])"
  by (simp add: compare_with_last_tmmbr_def update_adjustments)

lemma timer_adjustments:
  "adjustments (calls (ms_video_quality_controller_process_timer env now obj)) =
     adjustments (calls obj) @
       (if increase_timer_running obj \<and> 10 \<le>s now - increase_timer_start obj
        then [(last_tmmbr obj, INCREASE_BITRATE_THRESHOLD, False)] else [])"
  by (auto simp: ms_video_quality_controller_process_timer_def update_adjustments
      INCREASE_TIMER_DELAY_def)

lemma update_only_fps_keeps_definition:
  "bitrate_searches (calls (update_video_quality_from_bitrate env obj bitrate thr True))
     = bitrate_searches (calls obj)"
  "camera_changes (calls (update_video_quality_from_bitrate env obj bitrate thr True))
     = camera_changes (calls obj)"
  "last_vsize (update_video_quality_from_bitrate env obj bitrate thr True) = last_vsize obj"
  "sent_vsize (stream (update_video_quality_from_bitrate env obj bitrate thr True))
     = sent_vsize (stream obj)"
  "preview_vsize (stream (update_video_quality_from_bitrate env obj bitrate thr True))
     = preview_vsize (stream obj)"
  "forced_fps (stream (update_video_quality_from_bitrate env obj bitrate thr True))
     = forced_fps (stream obj)"
  by (cases "get_configuration_list env (filters (stream obj))";
      simp add: update_without_list update_tunes_only_fps tuning_calls_def tuned_stream_def)+

lemma feedback_when_tracking:
  assumes "last_tmmbr obj \<noteq> - 1"
  shows "ms_video_quality_controller_update_from_tmmbr env now obj tmmbr
    = compare_with_last_tmmbr env now obj tmmbr"
  using assms by (simp add: ms_video_quality_controller_update_from_tmmbr_def)

lemma timer_idle:
  "\<not> increase_timer_running obj \<Longrightarrow> ms_video_quality_controller_process_timer env now obj = obj"
  by (simp add: ms_video_quality_controller_process_timer_def)

lemma timer_waits:
  "\<not> 10 \<le>s now - increase_timer_start obj
    \<Longrightarrow> ms_video_quality_controller_process_timer env now obj = obj"
  by (simp add: ms_video_quality_controller_process_timer_def INCREASE_TIMER_DELAY_def)




text \<open>
  Where the difference does not fit, the model wraps: a timer started at \<open>-2\<close> is not due at
  the largest clock value.
\<close>

lemma timer_difference_wraps:
  "\<not> difference_fits 0x7FFFFFFFFFFFFFFF (- 2)"
  "\<not> 10 \<le>s (0x7FFFFFFFFFFFFFFF :: time_t) - (- 2)"
  by (simp_all add: difference_fits_def word_sle_eq)

lemma timer_fires:
  assumes "increase_timer_running obj" and "10 \<le>s now - increase_timer_start obj"
  shows "ms_video_quality_controller_process_timer env now obj =
    (update_video_quality_from_bitrate env obj (last_tmmbr obj) INCREASE_BITRATE_THRESHOLD False)
      \<lparr>increase_timer_running := False\<rparr>"
  using assms
  by (simp add: ms_video_quality_controller_process_timer_def INCREASE_TIMER_DELAY_def)

text \<open>The conversion to \<^verbatim>\<open>int\<close>, where C defines it.\<close>

lemma sint_float_to_int:
  assumes "- (2 ^ 31) \<le> truncation q" and "truncation q < 2 ^ 31"
  shows "sint (float_to_int q) = truncation q"
  using assms by (simp add: float_to_int_def sint_sbintrunc' signed_take_bit_int_eq_self)

lemma truncation_nonneg: "0 \<le> q \<Longrightarrow> truncation q = \<lfloor>q\<rfloor>"
  by (simp add: truncation_def)

lemma threshold_value: "INCREASE_BITRATE_THRESHOLD = 5452595 / 4194304"
  by code_simp

lemma scaled_examples:
  "scaled_bitrate 600000 INCREASE_BITRATE_THRESHOLD = 461538"
  "scaled_bitrate 1400000 INCREASE_BITRATE_THRESHOLD = 1076923"
  "scaled_bitrate 400000 1 = 400000"
  "scaled_bitrate 16777217 1 = 16777216"
  by code_simp+

lemma float_quotient_example:
  "float_quotient 600000 INCREASE_BITRATE_THRESHOLD = 14769231 / 32"
  by code_simp

text \<open>Rounding moves a value by at most half a unit in the last place.\<close>

lemma float_exponent_bounds:
  assumes "x \<noteq> 0"
  shows "2 powi float_exponent x \<le> \<bar>x\<bar> \<and> \<bar>x\<bar> < 2 powi (float_exponent x + 1)"
proof (cases "1 \<le> \<bar>x\<bar>")
  case True
  define n where "n = \<lfloor>\<bar>x\<bar>\<rfloor>"
  have n: "0 < n" using True by (simp add: n_def)
  have e: "float_exponent x = bitlen n - 1"
    using True by (simp add: float_exponent_def n_def)
  from bitlen_bounds [OF n] have lo: "2 ^ nat (bitlen n - 1) \<le> n" and hi: "n < 2 ^ nat (bitlen n)"
    by simp_all
  have pos: "1 \<le> bitlen n"
    using n bitlen_eq_zero_iff [of n] bitlen_nonneg [of n] by linarith
  have "(2 :: rat) ^ nat (bitlen n - 1) = of_int (2 ^ nat (bitlen n - 1))" by simp
  also have "\<dots> \<le> of_int n" using lo by (simp only: of_int_le_iff)
  also have "\<dots> \<le> \<bar>x\<bar>" by (simp add: n_def)
  finally have low: "2 powi float_exponent x \<le> \<bar>x\<bar>"
    using pos by (simp add: e power_int_nonneg_exp)
  have "\<bar>x\<bar> < of_int n + 1" unfolding n_def by linarith
  also have "\<dots> = of_int (n + 1)" by simp
  also have "\<dots> \<le> of_int (2 ^ nat (bitlen n))" using hi by (simp only: of_int_le_iff zless_imp_add1_zle)
  also have "\<dots> = (2 :: rat) ^ nat (bitlen n)" by simp
  finally have "\<bar>x\<bar> < 2 powi (float_exponent x + 1)"
    using pos by (simp add: e power_int_nonneg_exp)
  with low show ?thesis by simp
next
  case False
  define a where "a = \<bar>x\<bar>"
  have a: "0 < a" "a < 1" using assms False by (simp_all add: a_def)
  define n where "n = \<lceil>1 / a\<rceil> - 1"
  have "1 < 1 / a" using a by simp
  then have "1 < \<lceil>1 / a\<rceil>" by (simp add: less_ceiling_iff)
  then have n: "0 < n" by (simp add: n_def)
  have below: "of_int n < 1 / a"
    by (simp add: n_def) linarith
  have above: "1 / a \<le> of_int n + 1"
    by (simp add: n_def)
  have e: "float_exponent x = - bitlen n"
    using False by (simp add: float_exponent_def n_def a_def)
  from bitlen_bounds [OF n] have lo: "2 ^ nat (bitlen n - 1) \<le> n" and hi: "n < 2 ^ nat (bitlen n)"
    by simp_all
  have pos: "1 \<le> bitlen n"
    using n bitlen_eq_zero_iff [of n] bitlen_nonneg [of n] by linarith
  have "1 / a \<le> of_int (n + 1)" using above by simp
  also have "\<dots> \<le> of_int (2 ^ nat (bitlen n))" using hi by (simp only: of_int_le_iff zless_imp_add1_zle)
  also have "\<dots> = (2 :: rat) ^ nat (bitlen n)" by simp
  finally have "1 / 2 ^ nat (bitlen n) \<le> a"
    using a by (simp add: field_simps)
  then have low: "2 powi float_exponent x \<le> \<bar>x\<bar>"
    using pos by (simp add: e a_def power_int_minus_divide power_int_nonneg_exp)
  have "(2 :: rat) ^ nat (bitlen n - 1) = of_int (2 ^ nat (bitlen n - 1))" by simp
  also have "\<dots> \<le> of_int n" using lo by (simp only: of_int_le_iff)
  also have "\<dots> < 1 / a" by (rule below)
  finally have "a < 1 / 2 ^ nat (bitlen n - 1)"
    using a by (simp add: field_simps)
  moreover have "(2 :: rat) powi (- (bitlen n - 1)) = 1 / 2 powi (bitlen n - 1)"
    by (rule power_int_minus_divide)
  moreover have "(2 :: rat) powi (bitlen n - 1) = 2 ^ nat (bitlen n - 1)"
    using pos by (simp add: power_int_nonneg_exp)
  moreover have "float_exponent x + 1 = - (bitlen n - 1)" by (simp add: e)
  ultimately have "\<bar>x\<bar> < 2 powi (float_exponent x + 1)"
    by (simp only: a_def)
  with low show ?thesis by simp
qed

lemma round_half_even_error: "\<bar>of_int (round_half_even m) - m\<bar> \<le> 1 / 2"
proof -
  have "of_int \<lfloor>m\<rfloor> \<le> m" "m < of_int \<lfloor>m\<rfloor> + 1" by linarith+
  then show ?thesis
    by (auto simp: round_half_even_def Let_def abs_le_iff)
qed

lemma f32_round_error:
  "\<bar>f32_round x - x\<bar> \<le> 2 powi (float_exponent x - 23) / 2"
proof (cases "x = 0")
  case True
  then show ?thesis by (simp add: f32_round_def)
next
  case False
  define ulp :: rat where "ulp = 2 powi (float_exponent x - 23)"
  have ulp: "0 < ulp" by (simp add: ulp_def)
  have "f32_round x - x = (of_int (round_half_even (x / ulp)) - x / ulp) * ulp"
    using False ulp by (simp add: f32_round_def ulp_def [symmetric] Let_def field_simps)
  then have "\<bar>f32_round x - x\<bar> = \<bar>of_int (round_half_even (x / ulp)) - x / ulp\<bar> * ulp"
    using ulp by (simp add: abs_mult)
  also have "\<dots> \<le> 1 / 2 * ulp"
    using round_half_even_error [of "x / ulp"] ulp by (intro mult_right_mono) simp_all
  finally show ?thesis by (simp add: ulp_def)
qed

lemma float_exponent_less:
  assumes "x \<noteq> 0" and "\<bar>x\<bar> < 2 powi k"
  shows "float_exponent x < k"
proof (rule ccontr)
  assume "\<not> float_exponent x < k"
  then have "(2 :: rat) powi k \<le> 2 powi float_exponent x"
    by (intro power_int_increasing) simp_all
  with float_exponent_bounds [OF assms(1)] assms(2) show False by linarith
qed

lemma f32_round_close:
  assumes "\<bar>x\<bar> < 2 powi k"
  shows "\<bar>f32_round x - x\<bar> \<le> 2 powi (k - 25)"
proof (cases "x = 0")
  case True
  then show ?thesis by (simp add: f32_round_def)
next
  case False
  have "float_exponent x - 23 \<le> k - 24"
    using float_exponent_less [OF False assms] by simp
  then have "(2 :: rat) powi (float_exponent x - 23) \<le> 2 powi (k - 24)"
    by (intro power_int_increasing) simp_all
  moreover have "(2 :: rat) powi (k - 24) = 2 * 2 powi (k - 25)"
    using power_int_add_1 [of "2 :: rat" "k - 25"] by (simp add: mult.commute)
  ultimately show ?thesis
    using f32_round_error [of x] by linarith
qed

lemma abs_int_value: "\<bar>rat_of_int (sint (b :: cint))\<bar> \<le> 2 ^ 31"
proof -
  have "- (2 ^ 31) \<le> sint b" "sint b < 2 ^ 31"
    using sint_ge [of b] sint_lt [of b] by simp_all
  then have "\<bar>sint b\<bar> \<le> 2 ^ 31" by linarith
  then have "rat_of_int \<bar>sint b\<bar> \<le> rat_of_int (2 ^ 31)" by (simp only: of_int_le_iff)
  then show ?thesis by simp
qed

lemma int_float_close: "\<bar>f32_round (of_int (sint (b :: cint))) - of_int (sint b)\<bar> \<le> 128"
proof -
  have "\<bar>rat_of_int (sint b)\<bar> < 2 powi 32"
    using abs_int_value [of b] by simp
  from f32_round_close [OF this] show ?thesis by simp
qed

lemma abs_truncation_le: "rat_of_int \<bar>truncation q\<bar> \<le> \<bar>q\<bar>"
proof (cases "q < 0")
  case True
  then have "0 \<le> \<lfloor>- q\<rfloor>" by simp
  moreover have "rat_of_int \<lfloor>- q\<rfloor> \<le> - q" by linarith
  ultimately show ?thesis using True by (simp add: truncation_def)
next
  case False
  then have "0 \<le> \<lfloor>q\<rfloor>" by simp
  moreover have "rat_of_int \<lfloor>q\<rfloor> \<le> q" by linarith
  ultimately show ?thesis using False by (simp add: truncation_def)
qed

lemma timer_quotient_in_range:
  "\<bar>float_quotient b INCREASE_BITRATE_THRESHOLD\<bar> < 2 ^ 31 - 1"
proof -
  define x where "x = f32_round (of_int (sint b))"
  have x: "\<bar>x\<bar> \<le> 2 ^ 31 + 128"
    using int_float_close [of b] abs_int_value [of b] unfolding x_def by linarith
  define q where "q = x / INCREASE_BITRATE_THRESHOLD"
  have "\<bar>q\<bar> = \<bar>x\<bar> * (4194304 / 5452595)"
    by (simp add: q_def threshold_value abs_divide abs_mult)
  also have "\<dots> \<le> (2 ^ 31 + 128) * (4194304 / 5452595)"
    using x by (intro mult_right_mono) simp_all
  also have "\<dots> < 1651910700" by simp
  finally have q: "\<bar>q\<bar> < 1651910700" .
  then have "\<bar>q\<bar> < 2 powi 31" by simp
  from f32_round_close [OF this] have "\<bar>f32_round q - q\<bar> \<le> 64" by simp
  with q have "\<bar>f32_round q\<bar> < 2147483647" by linarith
  then show ?thesis
    by (simp add: float_quotient_def q_def x_def)
qed

lemma timer_target_defined:
  "sint (scaled_bitrate b INCREASE_BITRATE_THRESHOLD)
     = truncation (float_quotient b INCREASE_BITRATE_THRESHOLD)"
proof -
  let ?q = "float_quotient b INCREASE_BITRATE_THRESHOLD"
  have "rat_of_int \<bar>truncation ?q\<bar> < 2 ^ 31 - 1"
    using timer_quotient_in_range [of b] abs_truncation_le [of ?q] by linarith
  then have "rat_of_int \<bar>truncation ?q\<bar> < rat_of_int (2 ^ 31 - 1)"
    by simp
  then have "\<bar>truncation ?q\<bar> < 2 ^ 31 - 1" by (simp only: of_int_less_iff)
  then have "- (2 ^ 31) \<le> truncation ?q" "truncation ?q < 2 ^ 31" by linarith+
  then show ?thesis
    by (simp add: scaled_bitrate_def threshold_value sint_float_to_int)
qed

lemma round_half_even_nonneg: "0 \<le> m \<Longrightarrow> 0 \<le> round_half_even m"
  by (simp add: round_half_even_def Let_def)

lemma f32_round_nonneg: "0 \<le> x \<Longrightarrow> 0 \<le> f32_round x"
  by (simp add: f32_round_def Let_def round_half_even_nonneg)

lemma timer_quotient_nonneg:
  assumes "0 \<le>s b"
  shows "0 \<le> float_quotient b INCREASE_BITRATE_THRESHOLD"
proof -
  have "0 \<le> sint b"
    using assms by (simp add: word_sle_eq)
  then have "0 \<le> rat_of_int (sint b)"
    by (simp only: of_int_0_le_iff)
  then have "0 \<le> f32_round (rat_of_int (sint b))"
    by (rule f32_round_nonneg)
  then have "0 \<le> f32_round (rat_of_int (sint b)) / INCREASE_BITRATE_THRESHOLD"
    by (simp add: threshold_value)
  then show ?thesis
    unfolding float_quotient_def by (rule f32_round_nonneg)
qed

lemma accepted_iff:
  assumes "0 \<le> q" and "q < 2 ^ 31"
  shows "required \<le>s float_to_int q \<longleftrightarrow> of_int (sint required) \<le> q"
proof -
  have "0 \<le> \<lfloor>q\<rfloor>" using assms(1) by simp
  moreover have "\<lfloor>q\<rfloor> < 2 ^ 31" using assms(2) by (simp add: floor_less_iff)
  ultimately have "sint (float_to_int q) = \<lfloor>q\<rfloor>"
    using sint_float_to_int [of q] assms(1) by (simp add: truncation_nonneg)
  then show ?thesis
    by (simp add: word_sle_eq le_floor_iff)
qed

text \<open>Each rounding moves a value by at most one part in \<open>2 ^ 24\<close>.\<close>

lemma f32_round_relative: "\<bar>f32_round x - x\<bar> \<le> \<bar>x\<bar> / 2 ^ 24"
proof (cases "x = 0")
  case True
  then show ?thesis by (simp add: f32_round_def)
next
  case False
  have "(2 :: rat) powi (float_exponent x - 23) = 2 powi float_exponent x / 2 powi 23"
    by (rule power_int_diff) simp
  then have "(2 :: rat) powi (float_exponent x - 23) / 2 = 2 powi float_exponent x / 2 ^ 24"
    by simp
  moreover have "(2 :: rat) powi float_exponent x / 2 ^ 24 \<le> \<bar>x\<bar> / 2 ^ 24"
    using float_exponent_bounds [OF False] by (intro divide_right_mono) simp_all
  ultimately show ?thesis
    using f32_round_error [of x] by linarith
qed

lemma float_quotient_relative:
  assumes "thr \<noteq> 0"
  shows "\<bar>float_quotient b thr - rat_of_int (sint b) / thr\<bar>
    \<le> \<bar>rat_of_int (sint b) / thr\<bar> * (1 / 2 ^ 23 + 1 / 2 ^ 48)"
proof -
  define x0 where "x0 = rat_of_int (sint b)"
  define x1 where "x1 = f32_round x0"
  define q0 where "q0 = x1 / thr"
  define ex where "ex = x0 / thr"
  have "\<bar>q0 - ex\<bar> = \<bar>x1 - x0\<bar> / \<bar>thr\<bar>"
    by (simp add: q0_def ex_def flip: diff_divide_distrib)
  also have "\<dots> \<le> (\<bar>x0\<bar> / 2 ^ 24) / \<bar>thr\<bar>"
    using f32_round_relative [of x0] by (intro divide_right_mono) (simp_all add: x1_def)
  also have "\<dots> = \<bar>ex\<bar> / 2 ^ 24"
    by (simp add: ex_def)
  finally have near: "\<bar>q0 - ex\<bar> \<le> \<bar>ex\<bar> / 2 ^ 24" .
  then have "\<bar>q0\<bar> \<le> \<bar>ex\<bar> + \<bar>ex\<bar> / 2 ^ 24"
    by linarith
  then have "\<bar>q0\<bar> / 2 ^ 24 \<le> (\<bar>ex\<bar> + \<bar>ex\<bar> / 2 ^ 24) / 2 ^ 24"
    by (intro divide_right_mono) simp_all
  with f32_round_relative [of q0]
  have "\<bar>f32_round q0 - q0\<bar> \<le> (\<bar>ex\<bar> + \<bar>ex\<bar> / 2 ^ 24) / 2 ^ 24"
    by linarith
  with near have "\<bar>f32_round q0 - ex\<bar> \<le> (\<bar>ex\<bar> + \<bar>ex\<bar> / 2 ^ 24) / 2 ^ 24 + \<bar>ex\<bar> / 2 ^ 24"
    by linarith
  also have "\<dots> = \<bar>ex\<bar> * (1 / 2 ^ 23 + 1 / 2 ^ 48)"
    by (simp add: field_simps)
  finally show ?thesis
    by (simp add: float_quotient_def q0_def x1_def x0_def ex_def)
qed

lemma timer_margin:
  assumes "0 \<le>s b" and "required \<le>s scaled_bitrate b INCREASE_BITRATE_THRESHOLD"
  shows "rat_of_int (sint required) \<le> rat_of_int (sint b) / (13 / 10) * (1 + 1 / 2 ^ 22)"
proof -
  define x0 where "x0 = rat_of_int (sint b)"
  define q where "q = float_quotient b INCREASE_BITRATE_THRESHOLD"
  have "0 \<le> sint b"
    using assms(1) by (simp add: word_sle_eq)
  then have x0: "0 \<le> x0"
    unfolding x0_def by (simp only: of_int_0_le_iff)
  have q: "0 \<le> q" "q < 2 ^ 31"
    using timer_quotient_nonneg [OF assms(1)] timer_quotient_in_range [of b]
    by (simp_all add: q_def)
  have accepted: "rat_of_int (sint required) \<le> q"
    using assms(2) accepted_iff [OF q] by (simp add: scaled_bitrate_def threshold_value q_def)
  define ex where "ex = x0 / INCREASE_BITRATE_THRESHOLD"
  have ex: "ex = x0 * (4194304 / 5452595)"
    by (simp add: ex_def threshold_value)
  then have nonneg: "0 \<le> ex"
    using x0 by simp
  have "\<bar>q - ex\<bar> \<le> \<bar>ex\<bar> * (1 / 2 ^ 23 + 1 / 2 ^ 48)"
    using float_quotient_relative [of INCREASE_BITRATE_THRESHOLD b]
    by (simp add: q_def ex_def x0_def threshold_value)
  also have "\<bar>ex\<bar> = ex"
    using nonneg by (rule abs_of_nonneg)
  finally have "q - ex \<le> ex * (1 / 2 ^ 23 + 1 / 2 ^ 48)"
    by linarith
  then have "q \<le> ex + ex * (1 / 2 ^ 23 + 1 / 2 ^ 48)"
    by linarith
  also have "\<dots> = ex * (1 + 1 / 2 ^ 23 + 1 / 2 ^ 48)"
    by (simp only: distrib_left mult_1_right add.assoc)
  also have "\<dots> = x0 * (4194304 / 5452595 * (1 + 1 / 2 ^ 23 + 1 / 2 ^ 48))"
    by (simp add: ex)
  also have "\<dots> \<le> x0 * (10 / 13 * (1 + 1 / 2 ^ 22))"
    using x0 by (intro mult_left_mono) simp_all
  also have "\<dots> = x0 / (13 / 10) * (1 + 1 / 2 ^ 22)"
    by simp
  finally show ?thesis
    using accepted by (simp add: x0_def)
qed

lemma rounding_exceeds:
  "0 \<le>s (5000009 :: cint)"
  "(3846161 :: cint) \<le>s scaled_bitrate 5000009 INCREASE_BITRATE_THRESHOLD"
  "rat_of_int (sint (5000009 :: cint)) / (13 / 10) < rat_of_int (sint (3846161 :: cint))"
  "rat_of_int (sint (5000009 :: cint)) / INCREASE_BITRATE_THRESHOLD
     < rat_of_int (sint (3846161 :: cint))"
  by code_simp+

text \<open>The demo controller at its three stages.\<close>

lemma demo_obj_fresh: "last_tmmbr demo_obj = - 1"
  by (simp add: demo_obj_def ms_video_quality_controller_new_def)

lemma demo_obj_required:
  "required_bitrate (current_configuration demo_env demo_obj) = 500000"
  by (simp add: demo_obj_def ms_video_quality_controller_new_def current_configuration_def
      demo_env_def demo_stream_def conf_vga_30_def)

lemma demo_tracking_last: "last_tmmbr demo_tracking \<noteq> - 1"
  by code_simp

lemma demo_tracking_increase: "last_tmmbr demo_tracking <s 600000"
  by code_simp



lemma demo_armed_running: "increase_timer_running demo_armed"
  by code_simp

lemma demo_armed_start: "increase_timer_start demo_armed = 105"
  by code_simp


subsection \<open>The two scenarios of the specification\<close>

text \<open>
  A first feedback of 300 kbit/s below the required 500 kbit/s, a second of 600 kbit/s, then
  ten ticks one second apart: the tenth tick fires the adjustment at threshold 1.3 with
  600 kbit/s, whose search target is 461538 bit/s, and disarms the timer.
\<close>

lemma scenario_cooldown:
  "adjustments (calls (run demo_env demo_obj
     [Tmmbr 100 300000, Tmmbr 105 600000, Tick 106, Tick 107, Tick 108, Tick 109, Tick 110,
      Tick 111, Tick 112, Tick 113, Tick 114]))
     = [(300000, 1, False), (600000, 1, True)]"
  "adjustments (calls (run demo_env demo_obj
     [Tmmbr 100 300000, Tmmbr 105 600000, Tick 106, Tick 107, Tick 108, Tick 109, Tick 110,
      Tick 111, Tick 112, Tick 113, Tick 114, Tick 115]))
     = [(300000, 1, False), (600000, 1, True), (600000, 5452595 / 4194304, False)]"
  "bitrate_searches (calls (run demo_env demo_obj
     [Tmmbr 100 300000, Tmmbr 105 600000, Tick 106, Tick 107, Tick 108, Tick 109, Tick 110,
      Tick 111, Tick 112, Tick 113, Tick 114, Tick 115]))
     = [300000, 461538]"
  "increase_timer_running (run demo_env demo_obj
     [Tmmbr 100 300000, Tmmbr 105 600000, Tick 106, Tick 107, Tick 108, Tick 109, Tick 110,
      Tick 111, Tick 112, Tick 113, Tick 114, Tick 115]) = False"
  by code_simp+

text \<open>
  With the timer armed at 600 kbit/s, a feedback of 400 kbit/s cancels it and adjusts in
  full; the tick that follows does nothing.
\<close>

lemma scenario_congestion:
  "adjustments (calls (run demo_env demo_armed [Tmmbr 107 400000, Tick 120]))
     = adjustments (calls demo_armed) @ [(400000, 1, False)]"
  "last_tmmbr (run demo_env demo_armed [Tmmbr 107 400000, Tick 120]) = 400000"
  "increase_timer_running (run demo_env demo_armed [Tmmbr 107 400000, Tick 120]) = False"
  by code_simp+

section \<open>The claims\<close>

subsection \<open>An encoder without a configuration list\<close>

lemma fixed_stream_has_no_list:
  "get_configuration_list demo_env
     (filters (stream (ms_video_quality_controller_new fixed_stream))) = None"
  by (simp add: demo_env_def fixed_stream_def ms_video_quality_controller_new_def)

text \<open>
  C8: when the encoder's query for its configuration list yields no list, a call of
  \<^verbatim>\<open>update_video_quality_from_bitrate\<close> does nothing: the call log gains the entry and the
  query and nothing else (no configuration set, no frame rate set, no camera switch), the
  stream with its filters is the one at entry, and \<open>last_vsize\<close>, \<open>last_tmmbr\<close> and the
  timer are unchanged. The result is an ordinary controller: nothing is reported.
\<close>

theorem no_configuration_list_is_noop:
  assumes "get_configuration_list env (filters (stream obj)) = None"
  shows "update_video_quality_from_bitrate env obj bitrate thr only_fps =
           obj\<lparr>calls := calls obj @
             [Update_video_quality bitrate thr only_fps, Encoder_get_configuration_list]\<rparr>
    \<and> stream (update_video_quality_from_bitrate env obj bitrate thr only_fps) = stream obj
    \<and> last_vsize (update_video_quality_from_bitrate env obj bitrate thr only_fps) = last_vsize obj
    \<and> last_tmmbr (update_video_quality_from_bitrate env obj bitrate thr only_fps) = last_tmmbr obj
    \<and> increase_timer_start (update_video_quality_from_bitrate env obj bitrate thr only_fps)
         = increase_timer_start obj
    \<and> increase_timer_running (update_video_quality_from_bitrate env obj bitrate thr only_fps)
         = increase_timer_running obj
    \<and> configurations_set (calls (update_video_quality_from_bitrate env obj bitrate thr only_fps))
         = configurations_set (calls obj)
    \<and> fps_set (calls (update_video_quality_from_bitrate env obj bitrate thr only_fps))
         = fps_set (calls obj)
    \<and> camera_changes (calls (update_video_quality_from_bitrate env obj bitrate thr only_fps))
         = camera_changes (calls obj)"
  by (simp add: update_without_list [OF assms])

theorem no_configuration_list_is_noop_witness:
  "get_configuration_list demo_env
     (filters (stream (ms_video_quality_controller_new fixed_stream))) = None
   \<and> update_video_quality_from_bitrate demo_env (ms_video_quality_controller_new fixed_stream)
       300000 1 False =
     (ms_video_quality_controller_new fixed_stream)
       \<lparr>calls := [Update_video_quality 300000 1 False, Encoder_get_configuration_list]\<rparr>"
  using fixed_stream_has_no_list
    no_configuration_list_is_noop [OF fixed_stream_has_no_list, of 300000 1 False]
  by (simp add: ms_video_quality_controller_new_def)

subsection \<open>The last feedback\<close>

text \<open>
  C6: after a call of \<^verbatim>\<open>ms_video_quality_controller_update_from_tmmbr\<close>, whichever branch it
  took, \<open>last_tmmbr\<close> is the value just passed in; and so it is after any sequence of
  feedbacks and ticks that ends with a feedback.
\<close>

theorem last_tmmbr_is_last_feedback:
  "last_tmmbr (ms_video_quality_controller_update_from_tmmbr env now obj tmmbr) = tmmbr
   \<and> last_tmmbr (run env obj (evs @ [Tmmbr now tmmbr])) = tmmbr"
  by (simp add: feedback_sets_last_tmmbr)

lemma demo_events_within_contract:
  "list_all within_contract [Tmmbr 105 600000, Tick 110, Tmmbr 112 0, Tick 125]"
  by (simp add: word_sle_eq)

text \<open>
  C7: when the feedback values are not negative, a controller whose \<open>last_tmmbr\<close> is not
  the sentinel \<open>-1\<close> keeps it different from \<open>-1\<close> through every sequence of feedbacks and
  ticks, at every point of the sequence.
\<close>

theorem last_tmmbr_never_reverts:
  assumes "last_tmmbr obj \<noteq> - 1" and "list_all within_contract evs"
  shows "last_tmmbr (run env obj (take n evs)) \<noteq> - 1"
proof (rule run_keeps_tracking [OF assms(1)])
  show "\<forall>e\<in>set (take n evs). within_contract e"
    using assms(2) by (auto simp: list_all_iff dest: in_set_takeD)
qed

theorem last_tmmbr_never_reverts_witness:
  "last_tmmbr demo_tracking \<noteq> - 1
   \<and> list_all within_contract [Tmmbr 105 600000, Tick 110, Tmmbr 112 0, Tick 125]
   \<and> last_tmmbr (run demo_env demo_tracking
        (take 3 [Tmmbr 105 600000, Tick 110, Tmmbr 112 0, Tick 125])) \<noteq> - 1"
  using demo_tracking_last demo_events_within_contract
    last_tmmbr_never_reverts [OF demo_tracking_last demo_events_within_contract, of demo_env 3]
  by blast

subsection \<open>The first feedback\<close>

lemma demo_low_feedback:
  "300000 <s required_bitrate (current_configuration demo_env demo_obj)"
  by (simp add: demo_obj_required word_sless_alt)

lemma demo_high_feedback:
  "\<not> 600000 <s required_bitrate (current_configuration demo_env demo_obj)"
  by (simp add: demo_obj_required word_sless_alt)

lemma demo_above_sentinel: "(- 1 :: cint) <s 600000"
  by (simp add: word_sless_alt)

text \<open>
  C3: for a controller whose \<open>last_tmmbr\<close> is \<open>-1\<close>. When the feedback is strictly below
  the required bitrate of the encoder's current configuration, the call enters
  \<^verbatim>\<open>update_video_quality_from_bitrate\<close> exactly once, with the feedback, threshold 1.0 and
  \<open>update_only_fps\<close> false, stores the feedback in \<open>last_tmmbr\<close> and returns: the timer, which
  only the comparison touches, is as before. When the feedback is at or above it, there is
  no such adjustment and the call is the comparison of lines 116 to 128 against the
  sentinel \<open>-1\<close>: the increase branch for a feedback above \<open>-1\<close>.
\<close>

theorem first_feedback:

  assumes "last_tmmbr obj = - 1"
  shows "(tmmbr <s required_bitrate (current_configuration env obj) \<longrightarrow>
          ms_video_quality_controller_update_from_tmmbr env now obj tmmbr =
            (update_video_quality_from_bitrate env
               (obj\<lparr>calls := calls obj @ [Encoder_get_configuration]\<rparr>) tmmbr 1 False)
              \<lparr>last_tmmbr := tmmbr\<rparr>
          \<and> adjustments (calls (ms_video_quality_controller_update_from_tmmbr env now obj tmmbr))
              = adjustments (calls obj) @ [(tmmbr, 1, False)]
          \<and> last_tmmbr (ms_video_quality_controller_update_from_tmmbr env now obj tmmbr) = tmmbr
          \<and> increase_timer_start (ms_video_quality_controller_update_from_tmmbr env now obj tmmbr)
              = increase_timer_start obj
          \<and> increase_timer_running (ms_video_quality_controller_update_from_tmmbr env now obj tmmbr)
              = increase_timer_running obj)
    \<and> (\<not> tmmbr <s required_bitrate (current_configuration env obj) \<longrightarrow>
          ms_video_quality_controller_update_from_tmmbr env now obj tmmbr =
            compare_with_last_tmmbr env now
              (obj\<lparr>calls := calls obj @ [Encoder_get_configuration]\<rparr>) tmmbr
          \<and> adjustments (calls (ms_video_quality_controller_update_from_tmmbr env now obj tmmbr))
              = adjustments (calls obj) @
                  (if - 1 <s tmmbr then [(tmmbr, 1, True)]
                   else if tmmbr <s - 1 then [(tmmbr, 1, False)] else [])
          \<and> (- 1 <s tmmbr \<longrightarrow>
               ms_video_quality_controller_update_from_tmmbr env now obj tmmbr =
                 (update_video_quality_from_bitrate env
                    (obj\<lparr>calls := calls obj @ [Encoder_get_configuration],
                         increase_timer_start := now, increase_timer_running := True\<rparr>)
                    tmmbr 1 True)\<lparr>last_tmmbr := tmmbr\<rparr>))"
proof (intro conjI impI)
  let ?r = "ms_video_quality_controller_update_from_tmmbr env now obj tmmbr"
  let ?o = "obj\<lparr>calls := calls obj @ [Encoder_get_configuration]\<rparr>"
  {
    assume low: "tmmbr <s required_bitrate (current_configuration env obj)"
    then show eq: "?r = (update_video_quality_from_bitrate env ?o tmmbr 1 False)
        \<lparr>last_tmmbr := tmmbr\<rparr>"
      using assms
      by (simp add: ms_video_quality_controller_update_from_tmmbr_def current_configuration_def
          record_call_def)
    show "adjustments (calls ?r) = adjustments (calls obj) @ [(tmmbr, 1, False)]"
      by (simp add: eq update_adjustments)
    show "last_tmmbr ?r = tmmbr"
      by (simp add: eq)
    show "increase_timer_start ?r = increase_timer_start obj"
      by (simp add: eq update_keeps_timer_start)
    show "increase_timer_running ?r = increase_timer_running obj"
      by (simp add: eq update_keeps_timer_running)
  }
  {
    assume high: "\<not> tmmbr <s required_bitrate (current_configuration env obj)"
    then show eq: "?r = compare_with_last_tmmbr env now ?o tmmbr"
      using assms
      by (simp add: ms_video_quality_controller_update_from_tmmbr_def current_configuration_def
          record_call_def)
    show "adjustments (calls ?r) = adjustments (calls obj) @
        (if - 1 <s tmmbr then [(tmmbr, 1, True)]
         else if tmmbr <s - 1 then [(tmmbr, 1, False)] else [])"
      using assms by (simp add: eq compare_adjustments)
    assume "- 1 <s tmmbr"
    then show "?r = (update_video_quality_from_bitrate env
        (obj\<lparr>calls := calls obj @ [Encoder_get_configuration],
             increase_timer_start := now, increase_timer_running := True\<rparr>)
        tmmbr 1 True)\<lparr>last_tmmbr := tmmbr\<rparr>"
      using assms by (simp add: eq compare_increase)
  }
qed

theorem first_feedback_witness:

  "last_tmmbr demo_obj = - 1
   \<and> 300000 <s required_bitrate (current_configuration demo_env demo_obj)
   \<and> adjustments (calls (ms_video_quality_controller_update_from_tmmbr demo_env 100 demo_obj
        300000)) = adjustments (calls demo_obj) @ [(300000, 1, False)]
   \<and> last_tmmbr (ms_video_quality_controller_update_from_tmmbr demo_env 100 demo_obj 300000)
        = 300000
   \<and> increase_timer_running (ms_video_quality_controller_update_from_tmmbr demo_env 100
        demo_obj 300000) = increase_timer_running demo_obj
   \<and> \<not> 600000 <s required_bitrate (current_configuration demo_env demo_obj)
   \<and> - 1 <s (600000 :: cint)
   \<and> adjustments (calls (ms_video_quality_controller_update_from_tmmbr demo_env 100 demo_obj
        600000)) = adjustments (calls demo_obj) @ [(600000, 1, True)]"
proof -
  note low = first_feedback [OF demo_obj_fresh, where tmmbr = 300000 and env = demo_env
      and now = 100, THEN conjunct1, rule_format, OF demo_low_feedback]
  note high = first_feedback [OF demo_obj_fresh, where tmmbr = 600000 and env = demo_env
      and now = 100, THEN conjunct2, rule_format, OF demo_high_feedback]
  have increase: "adjustments (calls (ms_video_quality_controller_update_from_tmmbr demo_env 100
      demo_obj 600000)) = adjustments (calls demo_obj) @ [(600000, 1, True)]"
    using high [THEN conjunct2, THEN conjunct1] by (simp only: demo_above_sentinel if_True)
  show ?thesis
    using demo_obj_fresh demo_low_feedback demo_high_feedback demo_above_sentinel low increase
    by blast
qed

subsection \<open>An increase of the feedback\<close>

text \<open>
  C1: for a controller whose \<open>last_tmmbr\<close> is not \<open>-1\<close>, a feedback above \<open>last_tmmbr\<close> sets
  \<open>increase_timer_start\<close> to the current time, arms the timer and enters
  \<^verbatim>\<open>update_video_quality_from_bitrate\<close> once, with the feedback, threshold 1.0 and
  \<open>update_only_fps\<close> true. That call makes no search by bitrate and no camera switch, and
  leaves \<open>last_vsize\<close> and the stream's sizes and forced frame rate alone: an increase asks
  for no change of resolution. From such a controller the only entries with
  \<open>update_only_fps\<close> false are those of a feedback below \<open>last_tmmbr\<close> and of a timer that
  fires, and no entry with \<open>update_only_fps\<close> true switches the camera.
\<close>

theorem increase_only_tunes_fps:
  assumes "last_tmmbr obj \<noteq> - 1" and "last_tmmbr obj <s tmmbr"
  shows "ms_video_quality_controller_update_from_tmmbr env now obj tmmbr =
      (update_video_quality_from_bitrate env
         (obj\<lparr>increase_timer_start := now, increase_timer_running := True\<rparr>) tmmbr 1 True)
        \<lparr>last_tmmbr := tmmbr\<rparr>
    \<and> increase_timer_start (ms_video_quality_controller_update_from_tmmbr env now obj tmmbr) = now
    \<and> increase_timer_running (ms_video_quality_controller_update_from_tmmbr env now obj tmmbr)
    \<and> adjustments (calls (ms_video_quality_controller_update_from_tmmbr env now obj tmmbr))
        = adjustments (calls obj) @ [(tmmbr, 1, True)]
    \<and> bitrate_searches (calls (ms_video_quality_controller_update_from_tmmbr env now obj tmmbr))
        = bitrate_searches (calls obj)
    \<and> camera_changes (calls (ms_video_quality_controller_update_from_tmmbr env now obj tmmbr))
        = camera_changes (calls obj)
    \<and> last_vsize (ms_video_quality_controller_update_from_tmmbr env now obj tmmbr)
        = last_vsize obj
    \<and> sent_vsize (stream (ms_video_quality_controller_update_from_tmmbr env now obj tmmbr))
        = sent_vsize (stream obj)
    \<and> preview_vsize (stream (ms_video_quality_controller_update_from_tmmbr env now obj tmmbr))
        = preview_vsize (stream obj)
    \<and> forced_fps (stream (ms_video_quality_controller_update_from_tmmbr env now obj tmmbr))
        = forced_fps (stream obj)
    \<and> (\<forall>t. adjustments (calls (ms_video_quality_controller_update_from_tmmbr env now obj t))
          = adjustments (calls obj) @
              (if last_tmmbr obj <s t then [(t, 1, True)]
               else if t <s last_tmmbr obj then [(t, 1, False)] else []))
    \<and> (\<forall>n. adjustments (calls (ms_video_quality_controller_process_timer env n obj))
          = adjustments (calls obj) @
              (if increase_timer_running obj \<and> 10 \<le>s n - increase_timer_start obj
               then [(last_tmmbr obj, INCREASE_BITRATE_THRESHOLD, False)] else []))
    \<and> (\<forall>c b t. camera_changes (calls (update_video_quality_from_bitrate env c b t True))
          = camera_changes (calls c))"
proof -
  let ?r = "ms_video_quality_controller_update_from_tmmbr env now obj tmmbr"
  have eq: "?r = (update_video_quality_from_bitrate env
         (obj\<lparr>increase_timer_start := now, increase_timer_running := True\<rparr>) tmmbr 1 True)
        \<lparr>last_tmmbr := tmmbr\<rparr>"
    using assms by (simp add: feedback_when_tracking compare_increase)
  have timer: "increase_timer_start ?r = now" "increase_timer_running ?r"
    by (simp_all add: eq update_keeps_timer_start update_keeps_timer_running)
  have log: "adjustments (calls ?r) = adjustments (calls obj) @ [(tmmbr, 1, True)]"
    "bitrate_searches (calls ?r) = bitrate_searches (calls obj)"
    "camera_changes (calls ?r) = camera_changes (calls obj)"
    by (simp_all add: eq update_adjustments update_only_fps_keeps_definition)
  have sizes: "last_vsize ?r = last_vsize obj"
    "sent_vsize (stream ?r) = sent_vsize (stream obj)"
    "preview_vsize (stream ?r) = preview_vsize (stream obj)"
    "forced_fps (stream ?r) = forced_fps (stream obj)"
    by (simp_all add: eq update_only_fps_keeps_definition)
  have others: "\<forall>t. adjustments (calls (ms_video_quality_controller_update_from_tmmbr env now obj t))
          = adjustments (calls obj) @
              (if last_tmmbr obj <s t then [(t, 1, True)]
               else if t <s last_tmmbr obj then [(t, 1, False)] else [])"
    using assms(1) by (simp add: feedback_when_tracking compare_adjustments)
  show ?thesis
    using eq timer log sizes others timer_adjustments [of env _ obj]
      update_only_fps_keeps_definition(2) [of env]
    by blast
qed

theorem increase_only_tunes_fps_witness:
  "last_tmmbr demo_tracking \<noteq> - 1 \<and> last_tmmbr demo_tracking <s 600000
   \<and> increase_timer_start (ms_video_quality_controller_update_from_tmmbr demo_env 105
        demo_tracking 600000) = 105
   \<and> increase_timer_running (ms_video_quality_controller_update_from_tmmbr demo_env 105
        demo_tracking 600000)
   \<and> adjustments (calls (ms_video_quality_controller_update_from_tmmbr demo_env 105
        demo_tracking 600000)) = adjustments (calls demo_tracking) @ [(600000, 1, True)]
   \<and> camera_changes (calls (ms_video_quality_controller_update_from_tmmbr demo_env 105
        demo_tracking 600000)) = camera_changes (calls demo_tracking)"
  using demo_tracking_last demo_tracking_increase
    increase_only_tunes_fps [OF demo_tracking_last demo_tracking_increase, of demo_env 105]
  by blast

subsection \<open>The cooldown\<close>






subsection \<open>A change of resolution\<close>

lemma demo_armed_high_list:
  "get_configuration_list demo_env (filters (stream demo_armed_high)) = Some demo_list"
  by code_simp

lemma demo_armed_high_best:
  "conf_720p = best_for_bitrate demo_env demo_armed_high demo_list 1400000
     INCREASE_BITRATE_THRESHOLD"
  by code_simp

lemma demo_armed_high_size:
  "\<not> ms_video_size_equal (last_vsize demo_armed_high) (vsize conf_720p)"
  by code_simp

lemma demo_armed_high_pixels:
  "width (vsize conf_720p) * height (vsize conf_720p)
     \<noteq> width (vsize (current_configuration demo_env demo_armed_high))
       * height (vsize (current_configuration demo_env demo_armed_high))"
  by code_simp

text \<open>
  C4: in a call of \<^verbatim>\<open>update_video_quality_from_bitrate\<close> with \<open>update_only_fps\<close> false, on
  an encoder with a configuration list, when the size of the best configuration for the
  bitrate differs from \<open>last_vsize\<close> and its \<^verbatim>\<open>width * height\<close> differs from that of the
  current configuration: the stream's \<open>sent_vsize\<close> and \<open>preview_vsize\<close> become that size and
  its \<open>forced_fps\<close> the candidate's frame rate, the camera switch is called on that stream,
  \<open>last_vsize\<close> becomes that size, and the call returns. The call log ends with the camera
  switch: there is no search at the current size, no frame rate set and no configuration
  set in that call.
\<close>

theorem definition_change_returns_early:
  assumes "get_configuration_list env (filters (stream obj)) = Some l"
    and "best_vconf = best_for_bitrate env obj l bitrate thr"
    and "\<not> ms_video_size_equal (last_vsize obj) (vsize best_vconf)"
    and "width (vsize best_vconf) * height (vsize best_vconf)
          \<noteq> width (vsize (current_configuration env obj))
            * height (vsize (current_configuration env obj))"
  shows "update_video_quality_from_bitrate env obj bitrate thr False =
      obj\<lparr>stream := change_camera env
              ((stream obj)\<lparr>sent_vsize := vsize best_vconf, preview_vsize := vsize best_vconf,
                            forced_fps := fps best_vconf\<rparr>),
          last_vsize := vsize best_vconf,
          calls := calls obj @
            [Update_video_quality bitrate thr False, Encoder_get_configuration_list,
             Encoder_get_configuration,
             Find_best_configuration_for_bitrate l (scaled_bitrate bitrate thr) (cpu_count env obj),
             Change_camera_skip_bitrate]\<rparr>
    \<and> last_vsize (update_video_quality_from_bitrate env obj bitrate thr False) = vsize best_vconf
    \<and> camera_changes (calls (update_video_quality_from_bitrate env obj bitrate thr False))
        = camera_changes (calls obj) + 1
    \<and> size_searches (calls (update_video_quality_from_bitrate env obj bitrate thr False))
        = size_searches (calls obj)
    \<and> fps_set (calls (update_video_quality_from_bitrate env obj bitrate thr False))
        = fps_set (calls obj)
    \<and> configurations_set (calls (update_video_quality_from_bitrate env obj bitrate thr False))
        = configurations_set (calls obj)"
proof -
  have "changes_definition env obj l bitrate thr"
    using assms(2-4) by (simp add: changes_definition_def pixels_def)
  from update_changes_definition [OF assms(1) this] show ?thesis
    by (simp add: assms(2))
qed

theorem definition_change_returns_early_witness:
  "get_configuration_list demo_env (filters (stream demo_armed_high)) = Some demo_list
   \<and> conf_720p = best_for_bitrate demo_env demo_armed_high demo_list 1400000
       INCREASE_BITRATE_THRESHOLD
   \<and> \<not> ms_video_size_equal (last_vsize demo_armed_high) (vsize conf_720p)
   \<and> width (vsize conf_720p) * height (vsize conf_720p)
       \<noteq> width (vsize (current_configuration demo_env demo_armed_high))
         * height (vsize (current_configuration demo_env demo_armed_high))
   \<and> last_vsize (update_video_quality_from_bitrate demo_env demo_armed_high 1400000
        INCREASE_BITRATE_THRESHOLD False) = vsize conf_720p
   \<and> camera_changes (calls (update_video_quality_from_bitrate demo_env demo_armed_high 1400000
        INCREASE_BITRATE_THRESHOLD False)) = camera_changes (calls demo_armed_high) + 1
   \<and> fps_set (calls (update_video_quality_from_bitrate demo_env demo_armed_high 1400000
        INCREASE_BITRATE_THRESHOLD False)) = fps_set (calls demo_armed_high)
   \<and> configurations_set (calls (update_video_quality_from_bitrate demo_env demo_armed_high
        1400000 INCREASE_BITRATE_THRESHOLD False)) = configurations_set (calls demo_armed_high)"
  using demo_armed_high_list demo_armed_high_best demo_armed_high_size demo_armed_high_pixels
    definition_change_returns_early [OF demo_armed_high_list demo_armed_high_best
      demo_armed_high_size demo_armed_high_pixels]
  by blast

subsection \<open>The bitrate limit\<close>

lemma demo_obj_list:
  "get_configuration_list demo_env (filters (stream demo_obj)) = Some demo_list"
  by code_simp

lemma demo_obj_keeps_definition:
  "\<not> changes_definition demo_env demo_obj demo_list 300000 1"
  by code_simp

lemma demo_obj_applied:
  "sint (bitrate_limit (best_for_size demo_env demo_obj demo_list 2000000)) = 1024000"
  "sint (bitrate_limit (best_for_size demo_env demo_obj demo_list 300000)) = 500000"
  by code_simp+

text \<open>
  C5: a call of \<^verbatim>\<open>update_video_quality_from_bitrate\<close> that reaches line 69 (the encoder has
  a configuration list, and either \<open>update_only_fps\<close> is true or the test of line 56 fails)
  hands the encoder exactly one configuration, and its \<open>required_bitrate\<close> is the smaller of
  the bitrate and the \<open>bitrate_limit\<close> of the configuration found at the current size: it
  exceeds neither.
\<close>

theorem applied_bitrate_is_minimum:
  assumes "get_configuration_list env (filters (stream obj)) = Some l"
    and "only_fps \<or> \<not> changes_definition env obj l bitrate thr"
  shows "configurations_set (calls (update_video_quality_from_bitrate env obj bitrate thr only_fps))
        = configurations_set (calls obj) @ [applied_configuration env obj l bitrate]
    \<and> filters (stream (update_video_quality_from_bitrate env obj bitrate thr only_fps))
        = snd (set_configuration env (applied_configuration env obj l bitrate)
            (if fps (current_configuration env obj) \<noteq> fps (best_for_size env obj l bitrate)
             then set_fps env (fps (best_for_size env obj l bitrate)) (filters (stream obj))
             else filters (stream obj)))
    \<and> sint (required_bitrate (applied_configuration env obj l bitrate))
        = min (sint bitrate) (sint (bitrate_limit (best_for_size env obj l bitrate)))
    \<and> required_bitrate (applied_configuration env obj l bitrate) \<le>s bitrate
    \<and> required_bitrate (applied_configuration env obj l bitrate)
        \<le>s bitrate_limit (best_for_size env obj l bitrate)"
proof -
  let ?r = "update_video_quality_from_bitrate env obj bitrate thr only_fps"
  have "calls ?r = calls obj @
      (Update_video_quality bitrate thr only_fps # Encoder_get_configuration_list #
       Encoder_get_configuration #
       (if only_fps then []
        else [Find_best_configuration_for_bitrate l (scaled_bitrate bitrate thr)
                (cpu_count env obj)]))
      @ tuning_calls env obj l bitrate
    \<and> stream ?r = tuned_stream env obj l bitrate"
    using assms
    by (cases only_fps) (simp_all add: update_tunes_only_fps update_keeps_definition)
  then have "configurations_set (calls ?r)
        = configurations_set (calls obj) @ [applied_configuration env obj l bitrate]"
    and "filters (stream ?r)
        = snd (set_configuration env (applied_configuration env obj l bitrate)
            (if fps (current_configuration env obj) \<noteq> fps (best_for_size env obj l bitrate)
             then set_fps env (fps (best_for_size env obj l bitrate)) (filters (stream obj))
             else filters (stream obj)))"
    by (simp_all add: tuning_calls_def tuned_stream_def)
  moreover have "sint (required_bitrate (applied_configuration env obj l bitrate))
        = min (sint bitrate) (sint (bitrate_limit (best_for_size env obj l bitrate)))"
    by (simp add: applied_configuration_def word_sless_alt min_def)
  ultimately show ?thesis
    by (simp add: word_sle_eq)
qed

theorem applied_bitrate_is_minimum_witness:
  "get_configuration_list demo_env (filters (stream demo_obj)) = Some demo_list
   \<and> \<not> changes_definition demo_env demo_obj demo_list 300000 1
   \<and> configurations_set (calls (update_video_quality_from_bitrate demo_env demo_obj 300000 1
        False))
       = configurations_set (calls demo_obj)
           @ [applied_configuration demo_env demo_obj demo_list 300000]
   \<and> sint (required_bitrate (applied_configuration demo_env demo_obj demo_list 300000))
       = min 300000 500000
   \<and> configurations_set (calls (update_video_quality_from_bitrate demo_env demo_obj 2000000 1
        True))
       = configurations_set (calls demo_obj)
           @ [applied_configuration demo_env demo_obj demo_list 2000000]
   \<and> sint (required_bitrate (applied_configuration demo_env demo_obj demo_list 2000000))
       = min 2000000 1024000"
proof -
  have tuned: "False \<or> \<not> changes_definition demo_env demo_obj demo_list 300000 1"
    using demo_obj_keeps_definition by simp
  have only_fps: "True \<or> \<not> changes_definition demo_env demo_obj demo_list 2000000 1"
    by simp
  note full = applied_bitrate_is_minimum [OF demo_obj_list tuned]
  note fps_only = applied_bitrate_is_minimum [OF demo_obj_list only_fps]
  have "sint (required_bitrate (applied_configuration demo_env demo_obj demo_list 300000))
       = min 300000 500000"
    using full [THEN conjunct2, THEN conjunct2, THEN conjunct1]
    by (simp add: demo_obj_applied)
  moreover have "sint (required_bitrate (applied_configuration demo_env demo_obj demo_list 2000000))
       = min 2000000 1024000"
    using fps_only [THEN conjunct2, THEN conjunct2, THEN conjunct1]
    by (simp add: demo_obj_applied)
  ultimately show ?thesis
    using demo_obj_list demo_obj_keeps_definition full fps_only by blast
qed

subsection \<open>Where the threshold applies\<close>

lemma update_full_searches:
  assumes "get_configuration_list env (filters (stream obj)) = Some l"
  shows "bitrate_searches (calls (update_video_quality_from_bitrate env obj bitrate thr False))
      = bitrate_searches (calls obj) @ [scaled_bitrate bitrate thr]"
    and "size_searches (calls (update_video_quality_from_bitrate env obj bitrate thr False))
      = size_searches (calls obj) @
          (if changes_definition env obj l bitrate thr then []
           else [(vsize (current_configuration env obj), bitrate)])"
    and "configurations_set (calls (update_video_quality_from_bitrate env obj bitrate thr False))
      = configurations_set (calls obj) @
          (if changes_definition env obj l bitrate thr then []
           else [applied_configuration env obj l bitrate])"
  using assms
  by (cases "changes_definition env obj l bitrate thr";
      simp add: update_changes_definition update_keeps_definition tuning_calls_def)+

lemma demo_armed_list:
  "get_configuration_list demo_env (filters (stream demo_armed)) = Some demo_list"
  by code_simp

lemma demo_armed_quotient:
  "INCREASE_BITRATE_THRESHOLD \<noteq> 0"
  "0 \<le> float_quotient 600000 INCREASE_BITRATE_THRESHOLD"
  "float_quotient 600000 INCREASE_BITRATE_THRESHOLD < 2 ^ 31"
  by (simp add: threshold_value) (simp_all add: float_quotient_example)

lemma demo_armed_fires: "10 \<le>s 115 - increase_timer_start demo_armed"
  by (simp add: demo_armed_start)

lemma demo_armed_covered:
  "0 \<le>s last_tmmbr demo_armed"
  "461538 \<le>s scaled_bitrate (last_tmmbr demo_armed) INCREASE_BITRATE_THRESHOLD"
  by code_simp+

lemma demo_armed_tunes:
  "\<not> changes_definition demo_env demo_armed demo_list 600000 INCREASE_BITRATE_THRESHOLD"
  by code_simp

text \<open>
  The single-precision quotient is not the exact one: for 5000009 bit/s the search target
  is 3846161, which neither the exact quotient of 5000009 by 1.3 nor the exact quotient by
  the \<^verbatim>\<open>float\<close> nearest to 1.3 reaches.
\<close>

lemma float_quotient_exceeds_exact:
  "scaled_bitrate 5000009 INCREASE_BITRATE_THRESHOLD = 3846161"
  "(5000009 :: rat) / (13 / 10) < 3846161"
  "(5000009 :: rat) / INCREASE_BITRATE_THRESHOLD < 3846161"
  by code_simp+

text \<open>
  C9, as amended: in a call of \<^verbatim>\<open>update_video_quality_from_bitrate\<close> with
  \<open>update_only_fps\<close> false, on an encoder with a configuration list, the target handed to the
  search by bitrate is \<^verbatim>\<open>(int) (bitrate / bitrate_threshold)\<close>: the bitrate rounded to
  single precision, divided in single precision, with the fractional part discarded,
  wherever C defines the conversion. For a quotient that is not negative, a required
  bitrate is at most the target exactly when it is at most that rounded quotient. The
  rounded quotient lies within one part in \<open>2 ^ 23\<close> (and a little) of the exact one and can
  be above it; the threshold of the timer is the \<^verbatim>\<open>float\<close> nearest to 1.3, a little below
  1.3. So a required bitrate that the target of a fired timer covers is at most
  \<open>last_tmmbr / 1.3\<close> times \<open>1 + 1 / 2 ^ 22\<close>, and it can be above \<open>last_tmmbr / 1.3\<close>. The
  search at the current size, when the call gets there, is handed the bitrate itself, and
  the required bitrate of the configuration set is the minimum of the bitrate itself and
  the limit. For a timer that fires, the search by bitrate gets \<open>last_tmmbr\<close> divided by
  the threshold, the search at the current size and the limit get \<open>last_tmmbr\<close>; that
  division never leaves the range of \<^verbatim>\<open>int\<close>, so that its target is always the truncated
  rounded quotient.
\<close>

theorem threshold_divides_search_only:
  assumes "get_configuration_list env (filters (stream obj)) = Some l"
  shows "bitrate_searches (calls (update_video_quality_from_bitrate env obj bitrate thr False))
        = bitrate_searches (calls obj) @ [scaled_bitrate bitrate thr]
    \<and> size_searches (calls (update_video_quality_from_bitrate env obj bitrate thr False))
        = size_searches (calls obj) @
            (if changes_definition env obj l bitrate thr then []
             else [(vsize (current_configuration env obj), bitrate)])
    \<and> configurations_set (calls (update_video_quality_from_bitrate env obj bitrate thr False))
        = configurations_set (calls obj) @
            (if changes_definition env obj l bitrate thr then []
             else [applied_configuration env obj l bitrate])
    \<and> sint (required_bitrate (applied_configuration env obj l bitrate))
        = min (sint bitrate) (sint (bitrate_limit (best_for_size env obj l bitrate)))
    \<and> (thr \<noteq> 0 \<and> - (2 ^ 31) \<le> truncation (float_quotient bitrate thr)
          \<and> truncation (float_quotient bitrate thr) < 2 ^ 31
        \<longrightarrow> sint (scaled_bitrate bitrate thr) = truncation (float_quotient bitrate thr))
    \<and> (thr \<noteq> 0 \<and> 0 \<le> float_quotient bitrate thr \<and> float_quotient bitrate thr < 2 ^ 31
        \<longrightarrow> sint (scaled_bitrate bitrate thr) = \<lfloor>float_quotient bitrate thr\<rfloor>
          \<and> (\<forall>required. required \<le>s scaled_bitrate bitrate thr
                \<longleftrightarrow> of_int (sint required) \<le> float_quotient bitrate thr))
    \<and> (increase_timer_running obj \<and> 10 \<le>s now - increase_timer_start obj \<longrightarrow>
         bitrate_searches (calls (ms_video_quality_controller_process_timer env now obj))
           = bitrate_searches (calls obj)
               @ [scaled_bitrate (last_tmmbr obj) INCREASE_BITRATE_THRESHOLD]
         \<and> size_searches (calls (ms_video_quality_controller_process_timer env now obj))
           = size_searches (calls obj) @
               (if changes_definition env obj l (last_tmmbr obj) INCREASE_BITRATE_THRESHOLD
                then [] else [(vsize (current_configuration env obj), last_tmmbr obj)])
         \<and> configurations_set (calls (ms_video_quality_controller_process_timer env now obj))
           = configurations_set (calls obj) @
               (if changes_definition env obj l (last_tmmbr obj) INCREASE_BITRATE_THRESHOLD
                then [] else [applied_configuration env obj l (last_tmmbr obj)]))
    \<and> sint (scaled_bitrate (last_tmmbr obj) INCREASE_BITRATE_THRESHOLD)
        = truncation (float_quotient (last_tmmbr obj) INCREASE_BITRATE_THRESHOLD)
    \<and> (0 \<le>s last_tmmbr obj \<longrightarrow>
         (\<forall>required. required \<le>s scaled_bitrate (last_tmmbr obj) INCREASE_BITRATE_THRESHOLD
            \<longleftrightarrow> of_int (sint required)
                  \<le> float_quotient (last_tmmbr obj) INCREASE_BITRATE_THRESHOLD))
    \<and> INCREASE_BITRATE_THRESHOLD = 5452595 / 4194304
    \<and> (thr \<noteq> 0 \<longrightarrow>
         \<bar>float_quotient bitrate thr - rat_of_int (sint bitrate) / thr\<bar>
           \<le> \<bar>rat_of_int (sint bitrate) / thr\<bar> * (1 / 2 ^ 23 + 1 / 2 ^ 48))
    \<and> (0 \<le>s last_tmmbr obj \<longrightarrow>
         (\<forall>required. required \<le>s scaled_bitrate (last_tmmbr obj) INCREASE_BITRATE_THRESHOLD
            \<longrightarrow> rat_of_int (sint required)
                  \<le> rat_of_int (sint (last_tmmbr obj)) / (13 / 10) * (1 + 1 / 2 ^ 22)))
    \<and> (\<exists>b required. 0 \<le>s b \<and> required \<le>s scaled_bitrate b INCREASE_BITRATE_THRESHOLD
          \<and> rat_of_int (sint b) / (13 / 10) < rat_of_int (sint required)
          \<and> rat_of_int (sint b) / INCREASE_BITRATE_THRESHOLD < rat_of_int (sint required))"
proof -
  have relative: "thr \<noteq> 0 \<longrightarrow>
         \<bar>float_quotient bitrate thr - rat_of_int (sint bitrate) / thr\<bar>
           \<le> \<bar>rat_of_int (sint bitrate) / thr\<bar> * (1 / 2 ^ 23 + 1 / 2 ^ 48)"
    using float_quotient_relative [of thr bitrate] by blast
  have margin: "0 \<le>s last_tmmbr obj \<longrightarrow>
         (\<forall>required. required \<le>s scaled_bitrate (last_tmmbr obj) INCREASE_BITRATE_THRESHOLD
            \<longrightarrow> rat_of_int (sint required)
                  \<le> rat_of_int (sint (last_tmmbr obj)) / (13 / 10) * (1 + 1 / 2 ^ 22))"
    using timer_margin [of "last_tmmbr obj"] by blast
  have exceeds: "\<exists>b required. 0 \<le>s b
          \<and> required \<le>s scaled_bitrate b INCREASE_BITRATE_THRESHOLD
          \<and> rat_of_int (sint b) / (13 / 10) < rat_of_int (sint required)
          \<and> rat_of_int (sint b) / INCREASE_BITRATE_THRESHOLD < rat_of_int (sint required)"
    using rounding_exceeds by blast
  have fired: "0 \<le>s last_tmmbr obj \<longrightarrow>
         (\<forall>required. required \<le>s scaled_bitrate (last_tmmbr obj) INCREASE_BITRATE_THRESHOLD
            \<longleftrightarrow> of_int (sint required)
                  \<le> float_quotient (last_tmmbr obj) INCREASE_BITRATE_THRESHOLD)"
  proof
    assume "0 \<le>s last_tmmbr obj"
    then have "0 \<le> float_quotient (last_tmmbr obj) INCREASE_BITRATE_THRESHOLD"
      by (rule timer_quotient_nonneg)
    moreover have "float_quotient (last_tmmbr obj) INCREASE_BITRATE_THRESHOLD < 2 ^ 31"
      using timer_quotient_in_range [of "last_tmmbr obj"] by simp
    ultimately show "\<forall>required.
        required \<le>s scaled_bitrate (last_tmmbr obj) INCREASE_BITRATE_THRESHOLD
          \<longleftrightarrow> of_int (sint required)
                \<le> float_quotient (last_tmmbr obj) INCREASE_BITRATE_THRESHOLD"
      using accepted_iff [of "float_quotient (last_tmmbr obj) INCREASE_BITRATE_THRESHOLD"]
      by (simp add: scaled_bitrate_def threshold_value)
  qed
  have clamp: "sint (required_bitrate (applied_configuration env obj l bitrate))
        = min (sint bitrate) (sint (bitrate_limit (best_for_size env obj l bitrate)))"
    by (simp add: applied_configuration_def word_sless_alt min_def)
  have cast: "thr \<noteq> 0 \<and> - (2 ^ 31) \<le> truncation (float_quotient bitrate thr)
          \<and> truncation (float_quotient bitrate thr) < 2 ^ 31
        \<longrightarrow> sint (scaled_bitrate bitrate thr) = truncation (float_quotient bitrate thr)"
    by (simp add: scaled_bitrate_def sint_float_to_int)
  have accepted: "thr \<noteq> 0 \<and> 0 \<le> float_quotient bitrate thr \<and> float_quotient bitrate thr < 2 ^ 31
        \<longrightarrow> sint (scaled_bitrate bitrate thr) = \<lfloor>float_quotient bitrate thr\<rfloor>
          \<and> (\<forall>required. required \<le>s scaled_bitrate bitrate thr
                \<longleftrightarrow> of_int (sint required) \<le> float_quotient bitrate thr)"
  proof (intro impI, elim conjE)
    assume thr: "thr \<noteq> 0" and q: "0 \<le> float_quotient bitrate thr"
      "float_quotient bitrate thr < 2 ^ 31"
    have "\<forall>required. required \<le>s scaled_bitrate bitrate thr
                \<longleftrightarrow> of_int (sint required) \<le> float_quotient bitrate thr"
      using thr accepted_iff [OF q] by (simp add: scaled_bitrate_def)
    then show "sint (scaled_bitrate bitrate thr) = \<lfloor>float_quotient bitrate thr\<rfloor>
          \<and> (\<forall>required. required \<le>s scaled_bitrate bitrate thr
                \<longleftrightarrow> of_int (sint required) \<le> float_quotient bitrate thr)"
      using thr q sint_float_to_int [of "float_quotient bitrate thr"]
      by (simp add: scaled_bitrate_def truncation_nonneg floor_less_iff)
  qed
  have timer: "increase_timer_running obj \<and> 10 \<le>s now - increase_timer_start obj \<longrightarrow>
         bitrate_searches (calls (ms_video_quality_controller_process_timer env now obj))
           = bitrate_searches (calls obj)
               @ [scaled_bitrate (last_tmmbr obj) INCREASE_BITRATE_THRESHOLD]
         \<and> size_searches (calls (ms_video_quality_controller_process_timer env now obj))
           = size_searches (calls obj) @
               (if changes_definition env obj l (last_tmmbr obj) INCREASE_BITRATE_THRESHOLD
                then [] else [(vsize (current_configuration env obj), last_tmmbr obj)])
         \<and> configurations_set (calls (ms_video_quality_controller_process_timer env now obj))
           = configurations_set (calls obj) @
               (if changes_definition env obj l (last_tmmbr obj) INCREASE_BITRATE_THRESHOLD
                then [] else [applied_configuration env obj l (last_tmmbr obj)])"
    using update_full_searches [OF assms, of "last_tmmbr obj" INCREASE_BITRATE_THRESHOLD]
    by (simp add: timer_fires)
  show ?thesis
    using update_full_searches [OF assms, of bitrate thr] clamp cast accepted timer fired
      timer_target_defined [of "last_tmmbr obj"] threshold_value relative margin exceeds
    by blast
qed

theorem threshold_divides_search_only_witness:
  "get_configuration_list demo_env (filters (stream demo_armed)) = Some demo_list
   \<and> bitrate_searches (calls (update_video_quality_from_bitrate demo_env demo_armed 600000
        INCREASE_BITRATE_THRESHOLD False))
       = bitrate_searches (calls demo_armed) @ [461538]
   \<and> size_searches (calls (update_video_quality_from_bitrate demo_env demo_armed 600000
        INCREASE_BITRATE_THRESHOLD False))
       = size_searches (calls demo_armed)
           @ [(vsize (current_configuration demo_env demo_armed), 600000)]
   \<and> INCREASE_BITRATE_THRESHOLD \<noteq> 0
   \<and> 0 \<le> float_quotient 600000 INCREASE_BITRATE_THRESHOLD
   \<and> float_quotient 600000 INCREASE_BITRATE_THRESHOLD < 2 ^ 31
   \<and> sint (scaled_bitrate 600000 INCREASE_BITRATE_THRESHOLD)
       = \<lfloor>float_quotient 600000 INCREASE_BITRATE_THRESHOLD\<rfloor>
   \<and> increase_timer_running demo_armed
   \<and> 10 \<le>s 115 - increase_timer_start demo_armed
   \<and> bitrate_searches (calls (ms_video_quality_controller_process_timer demo_env 115
        demo_armed))
       = bitrate_searches (calls demo_armed)
           @ [scaled_bitrate (last_tmmbr demo_armed) INCREASE_BITRATE_THRESHOLD]
   \<and> sint (scaled_bitrate (last_tmmbr demo_armed) INCREASE_BITRATE_THRESHOLD)
       = truncation (float_quotient (last_tmmbr demo_armed) INCREASE_BITRATE_THRESHOLD)
   \<and> 0 \<le>s last_tmmbr demo_armed
   \<and> 461538 \<le>s scaled_bitrate (last_tmmbr demo_armed) INCREASE_BITRATE_THRESHOLD
   \<and> rat_of_int (sint (461538 :: cint))
       \<le> rat_of_int (sint (last_tmmbr demo_armed)) / (13 / 10) * (1 + 1 / 2 ^ 22)"
proof -
  note divides = threshold_divides_search_only [OF demo_armed_list, where bitrate = 600000
      and thr = INCREASE_BITRATE_THRESHOLD and now = 115]
  note margin = divides [THEN conjunct2, THEN conjunct2, THEN conjunct2, THEN conjunct2,
      THEN conjunct2, THEN conjunct2, THEN conjunct2, THEN conjunct2, THEN conjunct2,
      THEN conjunct2, THEN conjunct2, THEN conjunct1, rule_format,
      OF demo_armed_covered(1) demo_armed_covered(2)]
  have search: "bitrate_searches (calls (update_video_quality_from_bitrate demo_env demo_armed
      600000 INCREASE_BITRATE_THRESHOLD False)) = bitrate_searches (calls demo_armed) @ [461538]"
    using divides [THEN conjunct1] by (simp only: scaled_examples)
  have tune: "size_searches (calls (update_video_quality_from_bitrate demo_env demo_armed 600000
        INCREASE_BITRATE_THRESHOLD False))
       = size_searches (calls demo_armed)
           @ [(vsize (current_configuration demo_env demo_armed), 600000)]"
    using divides [THEN conjunct2, THEN conjunct1] by (simp only: demo_armed_tunes if_False)
  show ?thesis
    using demo_armed_list demo_armed_quotient demo_armed_running demo_armed_fires divides
      search tune demo_armed_covered margin
    by blast
qed

text \<open>
  C9, as stated, fails on its middle clause, for the quotient it names. The controller of
  the edge encoder receives 5000009 bit/s and its timer fires: the search target is
  3846161, the configuration that requires 3846161 bit/s is selected and the resolution
  changes to 1280x720, although neither 5000009 / 1.3 nor 5000009 divided by the threshold
  itself reaches 3846161. At threshold 1.0 the target for 16777219 bit/s is 16777220.
\<close>

theorem search_target_exceeds_quotient:
  "bitrate_searches (calls edge_fired) = [3846161]
   \<and> adjustments (calls edge_fired)
       = [(5000009, 1, True), (5000009, INCREASE_BITRATE_THRESHOLD, False)]
   \<and> required_bitrate conf_edge = 3846161
   \<and> last_vsize edge_fired = vsize conf_edge
   \<and> sent_vsize (stream edge_fired) = \<lparr>width = 1280, height = 720\<rparr>
   \<and> camera_changes (calls edge_fired) = 1
   \<and> \<not> rat_of_int (sint (required_bitrate conf_edge))
         \<le> rat_of_int (sint (5000009 :: cint)) / (13 / 10)
   \<and> \<not> rat_of_int (sint (required_bitrate conf_edge))
         \<le> rat_of_int (sint (5000009 :: cint)) / INCREASE_BITRATE_THRESHOLD
   \<and> sint (scaled_bitrate 16777219 1) = 16777220"
  by code_simp

subsection \<open>Who writes \<open>last_tmmbr\<close>\<close>

lemma ticks_keep_last_tmmbr:
  assumes "list_all is_tick ticks"
  shows "last_tmmbr (run env obj ticks) = last_tmmbr obj"
  using assms
proof (induction ticks rule: rev_induct)
  case Nil
  show ?case by simp
next
  case (snoc e ticks)
  then show ?case
    by (cases e) (simp_all add: timer_keeps_last_tmmbr)
qed

lemma timer_last_vsize:
  "last_vsize (ms_video_quality_controller_process_timer env now obj) =
     (case get_configuration_list env (filters (stream obj)) of
        None \<Rightarrow> last_vsize obj
      | Some l \<Rightarrow>
          if increase_timer_running obj \<and> 10 \<le>s now - increase_timer_start obj
             \<and> changes_definition env obj l (last_tmmbr obj) INCREASE_BITRATE_THRESHOLD
          then vsize (best_for_bitrate env obj l (last_tmmbr obj) INCREASE_BITRATE_THRESHOLD)
          else last_vsize obj)"
proof (cases "increase_timer_running obj \<and> 10 \<le>s now - increase_timer_start obj")
  case False
  then have "ms_video_quality_controller_process_timer env now obj = obj"
    using timer_idle [of obj env now] timer_waits [of now obj env] by auto
  with False show ?thesis
    by (auto split: option.split)
next
  case True
  then show ?thesis
    by (cases rule: update_cases [where env = env and obj = obj and only_fps = False
          and bitrate = "last_tmmbr obj" and thr = INCREASE_BITRATE_THRESHOLD])
      (simp_all add: timer_fires update_eqs)
qed

text \<open>
  C10, as amended: neither \<^verbatim>\<open>update_video_quality_from_bitrate\<close> nor the timer handler
  modifies \<open>last_tmmbr\<close>, so that after a feedback followed by ticks only the adjustment of a
  timer that fires is entered with the value of that feedback. The timer handler leaves
  \<open>increase_timer_start\<close> alone as well. It does change \<open>last_vsize\<close>, beside the running
  flag: when the timer fires and the adjustment changes the resolution, \<open>last_vsize\<close> becomes
  the size of the best configuration; in every other case it is unchanged.
\<close>

theorem tick_keeps_last_tmmbr:
  "last_tmmbr (update_video_quality_from_bitrate env obj bitrate thr only_fps) = last_tmmbr obj
   \<and> last_tmmbr (ms_video_quality_controller_process_timer env now obj) = last_tmmbr obj
   \<and> increase_timer_start (ms_video_quality_controller_process_timer env now obj)
       = increase_timer_start obj
   \<and> adjustments (calls (ms_video_quality_controller_process_timer env now obj))
       = adjustments (calls obj) @
           (if increase_timer_running obj \<and> 10 \<le>s now - increase_timer_start obj
            then [(last_tmmbr obj, INCREASE_BITRATE_THRESHOLD, False)] else [])
   \<and> (list_all is_tick ticks \<longrightarrow>
        last_tmmbr (run env obj (Tmmbr t tmmbr # ticks)) = tmmbr
        \<and> adjustments (calls (run env obj (Tmmbr t tmmbr # ticks @ [Tick now])))
            = adjustments (calls (run env obj (Tmmbr t tmmbr # ticks))) @
                (if increase_timer_running (run env obj (Tmmbr t tmmbr # ticks))
                    \<and> 10 \<le>s now - increase_timer_start (run env obj (Tmmbr t tmmbr # ticks))
                 then [(tmmbr, INCREASE_BITRATE_THRESHOLD, False)] else []))
   \<and> last_vsize (ms_video_quality_controller_process_timer env now obj) =
       (case get_configuration_list env (filters (stream obj)) of
          None \<Rightarrow> last_vsize obj
        | Some l \<Rightarrow>
            if increase_timer_running obj \<and> 10 \<le>s now - increase_timer_start obj
               \<and> changes_definition env obj l (last_tmmbr obj) INCREASE_BITRATE_THRESHOLD
            then vsize (best_for_bitrate env obj l (last_tmmbr obj) INCREASE_BITRATE_THRESHOLD)
            else last_vsize obj)"
proof -
  have seq: "list_all is_tick ticks \<longrightarrow>
        last_tmmbr (run env obj (Tmmbr t tmmbr # ticks)) = tmmbr
        \<and> adjustments (calls (run env obj (Tmmbr t tmmbr # ticks @ [Tick now])))
            = adjustments (calls (run env obj (Tmmbr t tmmbr # ticks))) @
                (if increase_timer_running (run env obj (Tmmbr t tmmbr # ticks))
                    \<and> 10 \<le>s now - increase_timer_start (run env obj (Tmmbr t tmmbr # ticks))
                 then [(tmmbr, INCREASE_BITRATE_THRESHOLD, False)] else [])"
  proof
    assume ticks: "list_all is_tick ticks"
    have last: "last_tmmbr (run env obj (Tmmbr t tmmbr # ticks)) = tmmbr"
      by (simp add: run_Cons ticks_keep_last_tmmbr [OF ticks] feedback_sets_last_tmmbr)
    have "run env obj (Tmmbr t tmmbr # ticks @ [Tick now])
        = ms_video_quality_controller_process_timer env now (run env obj (Tmmbr t tmmbr # ticks))"
      using run_snoc [of env obj "Tmmbr t tmmbr # ticks" "Tick now"] by simp
    then show "last_tmmbr (run env obj (Tmmbr t tmmbr # ticks)) = tmmbr
        \<and> adjustments (calls (run env obj (Tmmbr t tmmbr # ticks @ [Tick now])))
            = adjustments (calls (run env obj (Tmmbr t tmmbr # ticks))) @
                (if increase_timer_running (run env obj (Tmmbr t tmmbr # ticks))
                    \<and> 10 \<le>s now - increase_timer_start (run env obj (Tmmbr t tmmbr # ticks))
                 then [(tmmbr, INCREASE_BITRATE_THRESHOLD, False)] else [])"
      using last by (simp add: timer_adjustments)
  qed
  show ?thesis
    using seq timer_last_vsize [of env now obj]
    by (simp add: update_keeps_last_tmmbr timer_keeps_last_tmmbr timer_keeps_timer_start
        timer_adjustments)
qed

lemma demo_ticks: "list_all is_tick [Tick 106, Tick 110]"
  by simp

theorem tick_keeps_last_tmmbr_witness:
  "list_all is_tick [Tick 106, Tick 110]
   \<and> last_tmmbr (run demo_env demo_tracking (Tmmbr 105 600000 # [Tick 106, Tick 110])) = 600000
   \<and> last_tmmbr (ms_video_quality_controller_process_timer demo_env 115 demo_armed_high)
       = last_tmmbr demo_armed_high
   \<and> increase_timer_start (ms_video_quality_controller_process_timer demo_env 115
        demo_armed_high) = increase_timer_start demo_armed_high"
proof -
  note seq = tick_keeps_last_tmmbr [where env = demo_env and obj = demo_tracking and t = 105
      and tmmbr = 600000 and ticks = "[Tick 106, Tick 110]", THEN conjunct2, THEN conjunct2,
      THEN conjunct2, THEN conjunct2, THEN conjunct1, rule_format, OF demo_ticks]
  note tick = tick_keeps_last_tmmbr [where env = demo_env and obj = demo_armed_high
      and now = 115]
  show ?thesis
    using demo_ticks seq tick by blast
qed

text \<open>
  C10, as stated, fails on its last clause: a tick on the demo controller, armed by a
  feedback of 1400 kbit/s, fires an adjustment that moves \<open>last_vsize\<close> from 0x0 to 1280x720.
\<close>

theorem tick_changes_last_vsize:
  "increase_timer_running demo_armed_high
   \<and> last_vsize demo_armed_high = \<lparr>width = 0, height = 0\<rparr>
   \<and> last_vsize (ms_video_quality_controller_process_timer demo_env 115 demo_armed_high)
       = \<lparr>width = 1280, height = 720\<rparr>
   \<and> last_vsize (ms_video_quality_controller_process_timer demo_env 115 demo_armed_high)
       \<noteq> last_vsize demo_armed_high"
  by code_simp

end
